theory Spec2Isabelle
  imports Main "HOL-Library.Multiset"
begin

section \<open>JavaScript strings\<close>

text \<open>
  A string is the list of its code units, each modelled by a \<^typ>\<open>char\<close>. The regular
  expressions and comparisons of the adapter work code unit by code unit, every literal
  they compare against is ASCII, and a code unit outside ASCII is treated like any other
  code unit outside the classes below.
\<close>

definition ascii_upper :: string where
  "ascii_upper = ''ABCDEFGHIJKLMNOPQRSTUVWXYZ''"

definition ascii_lower :: string where
  "ascii_lower = ''abcdefghijklmnopqrstuvwxyz''"

definition ascii_digit :: string where
  "ascii_digit = ''0123456789''"

text \<open>\<^verbatim>\<open>String.prototype.toLowerCase\<close> on the letters A to Z; every other code unit
  modelled here is left as it is.\<close>

definition toLowerCase_char :: "char \<Rightarrow> char" where
  "toLowerCase_char c =
     (case map_of (zip ascii_upper ascii_lower) c of None \<Rightarrow> c | Some l \<Rightarrow> l)"

definition toLowerCase :: "string \<Rightarrow> string" where
  "toLowerCase s = map toLowerCase_char s"

definition endsWith :: "string \<Rightarrow> string \<Rightarrow> bool" where
  "endsWith s suf = (length suf \<le> length s \<and> drop (length s - length suf) s = suf)"

definition startsWith :: "string \<Rightarrow> string \<Rightarrow> bool" where
  "startsWith s pre = (take (length pre) s = pre)"

text \<open>\<^verbatim>\<open>s.split(sep)\<close> for a non-empty separator: the pieces between the successive
  occurrences of \<open>sep\<close>, found from the left. (The adapter only splits on
  \<^verbatim>\<open>','\<close>, \<^verbatim>\<open>'/'\<close> and \<^verbatim>\<open>'main/'\<close>.)\<close>

function split_from :: "string \<Rightarrow> string \<Rightarrow> string \<Rightarrow> string list" where
  "split_from sep cur [] = [cur]"
| "split_from sep cur (c # cs) =
     (if sep \<noteq> [] \<and> take (length sep) (c # cs) = sep
      then cur # split_from sep [] (drop (length sep) (c # cs))
      else split_from sep (cur @ [c]) cs)"
  by pat_completeness auto
termination
  by (relation "measure (\<lambda>(sep, cur, s). length s)") auto

definition split_js :: "string \<Rightarrow> string \<Rightarrow> string list" where
  "split_js s sep = split_from sep [] s"

text \<open>\<^verbatim>\<open>xs[i]\<close>: \<open>None\<close> is \<^verbatim>\<open>undefined\<close>.\<close>

definition at_index :: "'a list \<Rightarrow> nat \<Rightarrow> 'a option" where
  "at_index xs i = (if i < length xs then Some (xs ! i) else None)"

text \<open>The decimal rendering of an integer, as a template literal renders the
  millisecond timestamp.\<close>

fun digits :: "nat \<Rightarrow> string" where
  "digits n =
     (if n < 10 then [ascii_digit ! n] else digits (n div 10) @ [ascii_digit ! (n mod 10)])"

declare digits.simps [simp del]

definition numberToString :: "int \<Rightarrow> string" where
  "numberToString i = (if i < 0 then CHR ''-'' # digits (nat (- i)) else digits (nat i))"

text \<open>\<^verbatim>\<open>Array.prototype.sort\<close> with a comparator: stable, an element \<open>a\<close> goes before
  \<open>b\<close> when \<open>cmp a b\<close> is negative. Written as insertion from the right, which is
  what every conforming engine returns for a consistent comparator.\<close>

fun insert_by :: "('a \<Rightarrow> 'a \<Rightarrow> int) \<Rightarrow> 'a \<Rightarrow> 'a list \<Rightarrow> 'a list" where
  "insert_by cmp x [] = [x]"
| "insert_by cmp x (y # ys) =
     (if cmp x y \<le> 0 then x # y # ys else y # insert_by cmp x ys)"

fun sort_js :: "('a \<Rightarrow> 'a \<Rightarrow> int) \<Rightarrow> 'a list \<Rightarrow> 'a list" where
  "sort_js cmp [] = []"
| "sort_js cmp (x # xs) = insert_by cmp x (sort_js cmp xs)"


section \<open>Thrown values, configuration, files\<close>

text \<open>
  What a \<^verbatim>\<open>catch\<close> clause can receive: an instance of \<^verbatim>\<open>Error\<close> (its message and its
  \<^verbatim>\<open>status\<close> property, which the request errors of the client carry), any other
  value (with its \<^verbatim>\<open>status\<close> property, if it has one), or \<^verbatim>\<open>null\<close>/\<^verbatim>\<open>undefined\<close>.
\<close>

datatype thrown =
    ErrorObject string "int option"
  | OtherValue "int option"
  | Nullish

fun instanceofError :: "thrown \<Rightarrow> bool" where
  "instanceofError (ErrorObject m st) = True"
| "instanceofError (OtherValue st) = False"
| "instanceofError Nullish = False"

text \<open>\<^verbatim>\<open>error.status\<close>: reading a property of \<^verbatim>\<open>null\<close> or \<^verbatim>\<open>undefined\<close> throws a
  \<^verbatim>\<open>TypeError\<close>.\<close>

fun status :: "thrown \<Rightarrow> thrown + int option" where
  "status (ErrorObject m st) = Inr st"
| "status (OtherValue st) = Inr st"
| "status Nullish = Inl (ErrorObject ''Cannot read properties of null'' None)"

text \<open>The test \<^verbatim>\<open>error && typeof error === 'object' && 'status' in error &&
  error.status === 404\<close>.\<close>

fun is_not_found :: "thrown \<Rightarrow> bool" where
  "is_not_found (ErrorObject m st) = (st = Some 404)"
| "is_not_found (OtherValue st) = (st = Some 404)"
| "is_not_found Nullish = False"

text \<open>The three environment values; the empty string stands for a value that is
  absent or empty (both are falsy, and no operation gets past its first check with one).\<close>

record config =
  GITHUB_TOKEN :: string
  REPO_OWNER :: string
  REPO_NAME :: string

definition BRANCH :: string where
  "BRANCH = ''main''"

definition config_missing :: "config \<Rightarrow> bool" where
  "config_missing cfg = (GITHUB_TOKEN cfg = [] \<or> REPO_OWNER cfg = [] \<or> REPO_NAME cfg = [])"

text \<open>A browser \<^verbatim>\<open>File\<close>: its name, its size in bytes, and what
  \<^verbatim>\<open>FileReader.readAsDataURL\<close> produces for it (\<open>None\<close> when the reader fails).\<close>

record js_file =
  file_name :: string
  file_size :: nat
  file_dataURL :: "string option"


section \<open>The content repository client\<close>

record entry =
  entry_name :: string
  entry_path :: string
  entry_type :: string
  entry_sha :: string

text \<open>The data of a content read: a directory listing, or a single object with its
  \<^verbatim>\<open>sha\<close> property (if it has one).\<close>

datatype contents = Array "entry list" | Object "string option"

text \<open>The requests, with their parameters in the order owner, repo, path and then
  ref (read), message, content, branch (write), message, sha, branch (delete).\<close>

datatype request =
    GetContent string string string string
  | CreateOrUpdateFileContents string string string string "string option" string
  | DeleteFile string string string string string string

text \<open>
  The client is a parameter of every operation: three functions of the state \<open>'s\<close> of
  the backing store. A read returns data or throws; a write or a delete returns a response
  of type \<open>'r\<close> or throws, and leaves a new state. Between two requests of one
  operation nobody else changes the state.
\<close>

record ('s, 'r) octokit =
  getContent :: "'s \<Rightarrow> string \<Rightarrow> string \<Rightarrow> string \<Rightarrow> string \<Rightarrow> thrown + contents"
  createOrUpdateFileContents ::
    "'s \<Rightarrow> string \<Rightarrow> string \<Rightarrow> string \<Rightarrow> string \<Rightarrow> string option \<Rightarrow> string \<Rightarrow> (thrown + 'r) \<times> 's"
  deleteFile ::
    "'s \<Rightarrow> string \<Rightarrow> string \<Rightarrow> string \<Rightarrow> string \<Rightarrow> string \<Rightarrow> string \<Rightarrow> (thrown + 'r) \<times> 's"

text \<open>What one call of an operation leaves: its result (\<open>Inl\<close> a thrown value), the
  state of the backing store, the requests it sent in order, and the progress values it
  reported.\<close>

record ('a, 's) outcome =
  result :: "thrown + 'a"
  repo_state :: 's
  calls :: "request list"
  progress :: "nat list"

definition throws :: "thrown \<Rightarrow> 's \<Rightarrow> request list \<Rightarrow> nat list \<Rightarrow> ('a, 's) outcome" where
  "throws e s cs ps = \<lparr>result = Inl e, repo_state = s, calls = cs, progress = ps\<rparr>"

definition returns :: "'a \<Rightarrow> 's \<Rightarrow> request list \<Rightarrow> nat list \<Rightarrow> ('a, 's) outcome" where
  "returns v s cs ps = \<lparr>result = Inr v, repo_state = s, calls = cs, progress = ps\<rparr>"

text \<open>A \<^verbatim>\<open>catch\<close> clause that throws \<open>h e\<close> for every caught \<open>e\<close>.\<close>

definition catch_rethrow :: "(thrown \<Rightarrow> thrown) \<Rightarrow> ('a, 's) outcome \<Rightarrow> ('a, 's) outcome" where
  "catch_rethrow h out =
     (case result out of Inl e \<Rightarrow> out\<lparr>result := Inl (h e)\<rparr> | Inr v \<Rightarrow> out)"

definition raw_url :: "config \<Rightarrow> string \<Rightarrow> string" where
  "raw_url cfg p =
     ''https://raw.githubusercontent.com/'' @ REPO_OWNER cfg @ ''/'' @ REPO_NAME cfg
       @ ''/'' @ BRANCH @ ''/'' @ p"


section \<open>The adapter (the unnamed service file)\<close>

definition SUPPORTED_IMAGE_EXTENSIONS :: "string list" where
  "SUPPORTED_IMAGE_EXTENSIONS =
     [''.jpg'', ''.jpeg'', ''.png'', ''.gif'', ''.webp'', ''.svg'', ''.bmp'', ''.ico'',
      ''.tiff'', ''.tif'']"

definition IGNORED_FILES :: "string list" where
  "IGNORED_FILES = [''.gitkeep'', ''.gitignore'', ''README.md'', ''.DS_Store'', ''Thumbs.db'']"

definition isImageFile :: "string \<Rightarrow> bool" where
  "isImageFile filename =
     (let ext = toLowerCase filename
      in list_ex (\<lambda>extension. endsWith ext extension) SUPPORTED_IMAGE_EXTENSIONS)"

definition shouldIgnoreFile :: "string \<Rightarrow> bool" where
  "shouldIgnoreFile filename =
     (filename \<in> set IGNORED_FILES \<or> startsWith filename ''.'')"

text \<open>The character class of \<^verbatim>\<open>/[^a-zA-Z0-9.-]/g\<close>, and the replacement of every code
  unit outside it by an underscore.\<close>

definition name_class :: "char \<Rightarrow> bool" where
  "name_class c = (c \<in> set (ascii_lower @ ascii_upper @ ascii_digit @ ''.-''))"

definition safeFileName :: "string \<Rightarrow> string" where
  "safeFileName nm = map (\<lambda>c. if name_class c then c else CHR ''_'') nm"

definition maxSize :: nat where
  "maxSize = 25 * 1024 * 1024"

definition upload_fileName :: "int \<Rightarrow> js_file \<Rightarrow> string" where
  "upload_fileName timestamp f = numberToString timestamp @ ''-'' @ safeFileName (file_name f)"

definition upload_path :: "int \<Rightarrow> js_file \<Rightarrow> string" where
  "upload_path timestamp f = ''public/images/'' @ upload_fileName timestamp f"

text \<open>
  The body of the \<^verbatim>\<open>try\<close> of \<^verbatim>\<open>uploadImage\<close>. \<open>timestamp\<close> is what
  \<^verbatim>\<open>new Date().getTime()\<close> returns, \<open>onProgress\<close> says whether the caller passed a
  callback (taken not to throw; the values it is called with are recorded). The inner
  \<^verbatim>\<open>try\<close> always throws (the read's error, or the "already exists"
  error after a read that succeeded), and its \<^verbatim>\<open>catch\<close> lets only status 404 through.
\<close>

definition uploadImage_try ::
  "config \<Rightarrow> ('s, 'r) octokit \<Rightarrow> int \<Rightarrow> js_file \<Rightarrow> bool \<Rightarrow> 's \<Rightarrow> (string, 's) outcome" where
  "uploadImage_try cfg oc timestamp f onProgress s =
     (if config_missing cfg
      then throws (ErrorObject ''GitHub configuration is missing'' None) s [] []
      else if \<not> isImageFile (file_name f)
      then throws (ErrorObject ''Only image files are allowed'' None) s [] []
      else if file_size f > maxSize
      then throws (ErrorObject ''File size must be less than 25MB'' None) s [] []
      else
        let fileName = upload_fileName timestamp f;
            p = upload_path timestamp f;
            report = (\<lambda>ps. if onProgress then ps else [])
        in case file_dataURL f of
             None \<Rightarrow> throws (OtherValue None) s [] (report [30])
           | Some dataURL \<Rightarrow>
               let content = at_index (split_js dataURL '','') 1;
                   probe = GetContent (REPO_OWNER cfg) (REPO_NAME cfg) p BRANCH;
                   error = (case getContent oc s (REPO_OWNER cfg) (REPO_NAME cfg) p BRANCH of
                              Inl e \<Rightarrow> e
                            | Inr found \<Rightarrow> ErrorObject ''A file with this name already exists'' None)
               in case status error of
                    Inl type_error \<Rightarrow> throws type_error s [probe] (report [30, 60])
                  | Inr st \<Rightarrow>
                      if st \<noteq> Some 404 then throws error s [probe] (report [30, 60])
                      else
                        let message = ''Upload image: '' @ fileName;
                            write = CreateOrUpdateFileContents (REPO_OWNER cfg) (REPO_NAME cfg)
                                      p message content BRANCH
                        in case createOrUpdateFileContents oc s (REPO_OWNER cfg) (REPO_NAME cfg)
                                  p message content BRANCH of
                             (Inl e, s') \<Rightarrow> throws e s' [probe, write] (report [30, 60])
                           | (Inr response, s') \<Rightarrow>
                               returns (raw_url cfg p) s' [probe, write] (report [30, 60, 100]))"

definition uploadImage ::
  "config \<Rightarrow> ('s, 'r) octokit \<Rightarrow> int \<Rightarrow> js_file \<Rightarrow> bool \<Rightarrow> 's \<Rightarrow> (string, 's) outcome" where
  "uploadImage cfg oc timestamp f onProgress s =
     catch_rethrow
       (\<lambda>error. if instanceofError error then error
                else ErrorObject ''Failed to upload image to GitHub'' None)
       (uploadImage_try cfg oc timestamp f onProgress s)"

definition deleteImage_try ::
  "config \<Rightarrow> ('s, 'r) octokit \<Rightarrow> string \<Rightarrow> 's \<Rightarrow> (unit, 's) outcome" where
  "deleteImage_try cfg oc url s =
     (if config_missing cfg
      then throws (ErrorObject ''GitHub configuration is missing'' None) s [] []
      else
        let urlParts = split_js url (BRANCH @ ''/'')
        in if length urlParts < 2
           then throws (ErrorObject ''Invalid image URL format'' None) s [] []
           else
             let p = urlParts ! 1;
                 read = GetContent (REPO_OWNER cfg) (REPO_NAME cfg) p BRANCH
             in case getContent oc s (REPO_OWNER cfg) (REPO_NAME cfg) p BRANCH of
                  Inl e \<Rightarrow> throws e s [read] []
                | Inr (Object (Some sha)) \<Rightarrow>
                    let message = ''Delete image: '' @ last (split_js p ''/'');
                        del = DeleteFile (REPO_OWNER cfg) (REPO_NAME cfg) p message sha BRANCH
                    in (case deleteFile oc s (REPO_OWNER cfg) (REPO_NAME cfg) p message sha BRANCH of
                          (Inl e, s') \<Rightarrow> throws e s' [read, del] []
                        | (Inr response, s') \<Rightarrow> returns () s' [read, del] [])
                | Inr other \<Rightarrow>
                    throws (ErrorObject ''File not found or is a directory'' None) s [read] [])"

definition deleteImage ::
  "config \<Rightarrow> ('s, 'r) octokit \<Rightarrow> string \<Rightarrow> 's \<Rightarrow> (unit, 's) outcome" where
  "deleteImage cfg oc url s =
     catch_rethrow
       (\<lambda>error. if instanceofError error then error
                else ErrorObject ''Failed to delete image from GitHub'' None)
       (deleteImage_try cfg oc url s)"

text \<open>The filter callback of the listing.\<close>

definition listed :: "entry \<Rightarrow> bool" where
  "listed e =
     (if entry_type e \<noteq> ''file'' then False
      else if shouldIgnoreFile (entry_name e) then False
      else isImageFile (entry_name e))"

text \<open>\<open>localeCompare\<close> is the engine's \<^verbatim>\<open>String.prototype.localeCompare\<close>, whose
  collation the language leaves to the implementation: a parameter.\<close>

definition getUploadedImages_try ::
  "config \<Rightarrow> ('s, 'r) octokit \<Rightarrow> (string \<Rightarrow> string \<Rightarrow> int) \<Rightarrow> 's \<Rightarrow> (string list, 's) outcome" where
  "getUploadedImages_try cfg oc localeCompare s =
     (if config_missing cfg
      then throws (ErrorObject ''GitHub configuration is missing'' None) s [] []
      else
        let read = GetContent (REPO_OWNER cfg) (REPO_NAME cfg) ''public/images'' BRANCH
        in case getContent oc s (REPO_OWNER cfg) (REPO_NAME cfg) ''public/images'' BRANCH of
             Inl e \<Rightarrow> throws e s [read] []
           | Inr (Array cs) \<Rightarrow>
               returns
                 (map (\<lambda>e. raw_url cfg (entry_path e))
                    (sort_js (\<lambda>a b. localeCompare (entry_name b) (entry_name a))
                       (filter listed cs)))
                 s [read] []
           | Inr other \<Rightarrow> returns [] s [read] [])"

definition getUploadedImages ::
  "config \<Rightarrow> ('s, 'r) octokit \<Rightarrow> (string \<Rightarrow> string \<Rightarrow> int) \<Rightarrow> 's \<Rightarrow> (string list, 's) outcome" where
  "getUploadedImages cfg oc localeCompare s =
     (let out = getUploadedImages_try cfg oc localeCompare s
      in case result out of
           Inr urls \<Rightarrow> out
         | Inl error \<Rightarrow>
             if is_not_found error then out\<lparr>result := Inr []\<rparr>
             else out\<lparr>result := Inr []\<rparr>)"

text \<open>\<^verbatim>\<open>btoa('# This file keeps the directory in git')\<close>.\<close>

definition gitkeep_content :: string where
  "gitkeep_content = ''IyBUaGlzIGZpbGUga2VlcHMgdGhlIGRpcmVjdG9yeSBpbiBnaXQ=''"

definition ensureImagesDirectory_try ::
  "config \<Rightarrow> ('s, 'r) octokit \<Rightarrow> 's \<Rightarrow> (unit, 's) outcome" where
  "ensureImagesDirectory_try cfg oc s =
     (if config_missing cfg
      then throws (ErrorObject ''GitHub configuration is missing'' None) s [] []
      else
        let read = GetContent (REPO_OWNER cfg) (REPO_NAME cfg) ''public/images'' BRANCH
        in case getContent oc s (REPO_OWNER cfg) (REPO_NAME cfg) ''public/images'' BRANCH of
             Inr found \<Rightarrow> returns () s [read] []
           | Inl error \<Rightarrow>
               (case status error of
                  Inl type_error \<Rightarrow> throws type_error s [read] []
                | Inr st \<Rightarrow>
                    if st = Some 404
                    then
                      let write = CreateOrUpdateFileContents (REPO_OWNER cfg) (REPO_NAME cfg)
                                    ''public/images/.gitkeep'' ''Create images directory''
                                    (Some gitkeep_content) BRANCH
                      in (case createOrUpdateFileContents oc s (REPO_OWNER cfg) (REPO_NAME cfg)
                                 ''public/images/.gitkeep'' ''Create images directory''
                                 (Some gitkeep_content) BRANCH of
                            (Inl e, s') \<Rightarrow> throws e s' [read, write] []
                          | (Inr response, s') \<Rightarrow> returns () s' [read, write] [])
                    else throws error s [read] []))"

definition ensureImagesDirectory ::
  "config \<Rightarrow> ('s, 'r) octokit \<Rightarrow> 's \<Rightarrow> (unit, 's) outcome" where
  "ensureImagesDirectory cfg oc s =
     catch_rethrow (\<lambda>error. ErrorObject ''Failed to ensure images directory exists'' None)
       (ensureImagesDirectory_try cfg oc s)"


section \<open>The earlier service (services/uploadService.ts)\<close>

text \<open>The character class of \<^verbatim>\<open>/[^a-zA-Z0-9-.]/g\<close>: after the range 0-9, the hyphen
  and the dot are literal.\<close>

definition svc_name_class :: "char \<Rightarrow> bool" where
  "svc_name_class c = (c \<in> set (ascii_lower @ ascii_upper @ ascii_digit @ ''-.''))"

definition svc_safeFileName :: "string \<Rightarrow> string" where
  "svc_safeFileName nm = map (\<lambda>c. if svc_name_class c then c else CHR ''_'') nm"

definition svc_uploadImage_try ::
  "config \<Rightarrow> ('s, 'r) octokit \<Rightarrow> int \<Rightarrow> js_file \<Rightarrow> bool \<Rightarrow> 's \<Rightarrow> (string, 's) outcome" where
  "svc_uploadImage_try cfg oc timestamp f onProgress s =
     (if config_missing cfg
      then throws (ErrorObject ''GitHub configuration is missing'' None) s [] []
      else
        let fileName = numberToString timestamp @ ''-'' @ svc_safeFileName (file_name f);
            p = ''public/images/'' @ fileName;
            report = (\<lambda>ps. if onProgress then ps else [])
        in case file_dataURL f of
             None \<Rightarrow> throws (OtherValue None) s [] (report [30])
           | Some dataURL \<Rightarrow>
               let content = at_index (split_js dataURL '','') 1;
                   message = ''Upload image: '' @ fileName;
                   write = CreateOrUpdateFileContents (REPO_OWNER cfg) (REPO_NAME cfg)
                             p message content BRANCH
               in case createOrUpdateFileContents oc s (REPO_OWNER cfg) (REPO_NAME cfg)
                         p message content BRANCH of
                    (Inl e, s') \<Rightarrow> throws e s' [write] (report [30, 60])
                  | (Inr response, s') \<Rightarrow>
                      returns (raw_url cfg p) s' [write] (report [30, 60, 100]))"

definition svc_uploadImage ::
  "config \<Rightarrow> ('s, 'r) octokit \<Rightarrow> int \<Rightarrow> js_file \<Rightarrow> bool \<Rightarrow> 's \<Rightarrow> (string, 's) outcome" where
  "svc_uploadImage cfg oc timestamp f onProgress s =
     catch_rethrow (\<lambda>error. ErrorObject ''Failed to upload image to GitHub'' None)
       (svc_uploadImage_try cfg oc timestamp f onProgress s)"

definition svc_getUploadedImages_try ::
  "config \<Rightarrow> ('s, 'r) octokit \<Rightarrow> 's \<Rightarrow> (string list, 's) outcome" where
  "svc_getUploadedImages_try cfg oc s =
     (if config_missing cfg
      then throws (ErrorObject ''GitHub configuration is missing'' None) s [] []
      else
        let read = GetContent (REPO_OWNER cfg) (REPO_NAME cfg) ''public/images'' BRANCH
        in case getContent oc s (REPO_OWNER cfg) (REPO_NAME cfg) ''public/images'' BRANCH of
             Inl e \<Rightarrow> throws e s [read] []
           | Inr (Array cs) \<Rightarrow>
               returns
                 (map (\<lambda>e. raw_url cfg (entry_path e))
                    (filter (\<lambda>e. entry_type e = ''file'') cs))
                 s [read] []
           | Inr other \<Rightarrow> returns [] s [read] [])"

definition svc_getUploadedImages ::
  "config \<Rightarrow> ('s, 'r) octokit \<Rightarrow> 's \<Rightarrow> (string list, 's) outcome" where
  "svc_getUploadedImages cfg oc s =
     (let out = svc_getUploadedImages_try cfg oc s
      in case result out of
           Inr urls \<Rightarrow> out
         | Inl error \<Rightarrow> out\<lparr>result := Inr []\<rparr>)"


section \<open>An in-memory content repository\<close>

text \<open>
  A small client to run the adapter on: the store is a list of paths with their
  contents. A path that is a proper directory prefix of stored paths reads as the listing
  of those, a path that is stored reads as a single object, and anything else is
  "not found". A write replaces what is stored at its path, a delete removes it.
\<close>

type_synonym mem = "(string \<times> string option) list"

definition mem_getContent :: "mem \<Rightarrow> string \<Rightarrow> string \<Rightarrow> string \<Rightarrow> string \<Rightarrow> thrown + contents" where
  "mem_getContent s ow rp p rf =
     (let kids = filter (\<lambda>(q, c). take (length p + 1) q = p @ ''/'') s
      in if kids \<noteq> []
         then Inr (Array (map (\<lambda>(q, c).
                \<lparr>entry_name = drop (length p + 1) q, entry_path = q,
                 entry_type = ''file'', entry_sha = ''sha:'' @ q\<rparr>) kids))
         else (case map_of s p of
                 Some c \<Rightarrow> Inr (Object (Some (''sha:'' @ p)))
               | None \<Rightarrow> Inl (ErrorObject ''Not Found'' (Some 404))))"

definition mem_createOrUpdateFileContents ::
  "mem \<Rightarrow> string \<Rightarrow> string \<Rightarrow> string \<Rightarrow> string \<Rightarrow> string option \<Rightarrow> string \<Rightarrow> (thrown + unit) \<times> mem" where
  "mem_createOrUpdateFileContents s ow rp p msg content br =
     (Inr (), filter (\<lambda>(q, c). q \<noteq> p) s @ [(p, content)])"

definition mem_deleteFile ::
  "mem \<Rightarrow> string \<Rightarrow> string \<Rightarrow> string \<Rightarrow> string \<Rightarrow> string \<Rightarrow> string \<Rightarrow> (thrown + unit) \<times> mem" where
  "mem_deleteFile s ow rp p msg sha br = (Inr (), filter (\<lambda>(q, c). q \<noteq> p) s)"

definition mem_octokit :: "(mem, unit) octokit" where
  "mem_octokit =
     \<lparr>getContent = mem_getContent,
      createOrUpdateFileContents = mem_createOrUpdateFileContents,
      deleteFile = mem_deleteFile\<rparr>"

definition demo_config :: config where
  "demo_config = \<lparr>GITHUB_TOKEN = ''t0ken'', REPO_OWNER = ''acme'', REPO_NAME = ''pics''\<rparr>"

definition demo_photo :: js_file where
  "demo_photo =
     \<lparr>file_name = ''photo one.png'', file_size = 2048,
      file_dataURL = Some ''data:image/png;base64,iVBORw0KGgo=''\<rparr>"

definition demo_big_jpeg :: js_file where
  "demo_big_jpeg =
     \<lparr>file_name = ''holiday.jpg'', file_size = 30000000,
      file_dataURL = Some ''data:image/jpeg;base64,/9j/4AAQSkZJRg==''\<rparr>"

definition demo_notes :: js_file where
  "demo_notes =
     \<lparr>file_name = ''notes.txt'', file_size = 12,
      file_dataURL = Some ''data:text/plain;base64,aGVsbG8gd29ybGQh''\<rparr>"

definition demo_cat :: js_file where
  "demo_cat =
     \<lparr>file_name = ''cat.png'', file_size = 2048,
      file_dataURL = Some ''data:image/png;base64,iVBORw0KGgo=''\<rparr>"

text \<open>A configuration whose owner name ends in the branch name.\<close>

definition romain_config :: config where
  "romain_config = \<lparr>GITHUB_TOKEN = ''t0ken'', REPO_OWNER = ''romain'', REPO_NAME = ''pics''\<rparr>"

definition demo_listing :: "entry list" where
  "demo_listing =
     [\<lparr>entry_name = ''.gitkeep'', entry_path = ''public/images/.gitkeep'',
       entry_type = ''file'', entry_sha = ''a0''\<rparr>,
      \<lparr>entry_name = ''1700000000000-photo_one.png'',
       entry_path = ''public/images/1700000000000-photo_one.png'',
       entry_type = ''file'', entry_sha = ''a1''\<rparr>,
      \<lparr>entry_name = ''notes.txt'', entry_path = ''public/images/notes.txt'',
       entry_type = ''file'', entry_sha = ''a2''\<rparr>,
      \<lparr>entry_name = ''1700000000001-IMG.JPG'',
       entry_path = ''public/images/1700000000001-IMG.JPG'',
       entry_type = ''file'', entry_sha = ''a3''\<rparr>,
      \<lparr>entry_name = ''old.png'', entry_path = ''public/images/old.png'',
       entry_type = ''dir'', entry_sha = ''a4''\<rparr>]"

definition demo_gitkeep_entry :: entry where
  "demo_gitkeep_entry =
     \<lparr>entry_name = ''.gitkeep'', entry_path = ''public/images/.gitkeep'',
      entry_type = ''file'', entry_sha = ''sha:public/images/.gitkeep''\<rparr>"

definition demo_photo_entry :: entry where
  "demo_photo_entry =
     \<lparr>entry_name = ''1700000000000-photo_one.png'',
      entry_path = ''public/images/1700000000000-photo_one.png'',
      entry_type = ''file'', entry_sha = ''sha:public/images/1700000000000-photo_one.png''\<rparr>"

definition demo_photo_url :: string where
  "demo_photo_url =
     ''https://raw.githubusercontent.com/acme/pics/main/public/images/1700000000000-photo_one.png''"

definition demo_cat_url :: string where
  "demo_cat_url =
     ''https://raw.githubusercontent.com/romain/pics/main/public/images/1700000000000-cat.png''"

text \<open>A client whose reads and writes answer from fixed values.\<close>

definition fixed_octokit :: "thrown + contents \<Rightarrow> thrown + unit \<Rightarrow> (nat, unit) octokit" where
  "fixed_octokit read_answer write_answer =
     \<lparr>getContent = (\<lambda>s ow rp p rf. read_answer),
      createOrUpdateFileContents = (\<lambda>s ow rp p msg content br. (write_answer, Suc s)),
      deleteFile = (\<lambda>s ow rp p msg sha br. (write_answer, Suc s))\<rparr>"

text \<open>Code unit order, as one collation \<^verbatim>\<open>localeCompare\<close> may follow.\<close>

fun compare_units :: "string \<Rightarrow> string \<Rightarrow> int" where
  "compare_units [] [] = 0"
| "compare_units [] (y # ys) = - 1"
| "compare_units (x # xs) [] = 1"
| "compare_units (x # xs) (y # ys) =
     (if (of_char x :: nat) < of_char y then - 1
      else if (of_char y :: nat) < of_char x then 1
      else compare_units xs ys)"


section \<open>Predicates of the specification\<close>

text \<open>The pattern \<^verbatim>\<open>^[A-Za-z0-9.-]+$\<close> a sanitized name is said to match.\<close>

definition spec_name_pattern :: "string \<Rightarrow> bool" where
  "spec_name_pattern s =
     (s \<noteq> [] \<and> list_all (\<lambda>c. c \<in> set (ascii_upper @ ascii_lower @ ascii_digit @ ''.-'')) s)"

text \<open>The entries a listing is said to keep: of type "file", not on the ignore list,
  not hidden, and ending in a recognized extension whatever the case of its letters.\<close>

definition spec_listed :: "entry \<Rightarrow> bool" where
  "spec_listed e =
     (entry_type e = ''file''
      \<and> entry_name e \<notin> set IGNORED_FILES
      \<and> (case entry_name e of [] \<Rightarrow> True | c # cs \<Rightarrow> c \<noteq> CHR ''.'')
      \<and> (\<exists>stem ext. entry_name e = stem @ ext \<and> toLowerCase ext \<in> set SUPPORTED_IMAGE_EXTENSIONS))"

text \<open>
  What the adapter relies on from the backing store when it lists after a store: once a
  file has been created at a path \<open>dir/name\<close> that read as "not found" just before,
  the listing of \<open>dir\<close> in the state the write left shows that path exactly once, as
  an entry of type "file" named \<open>name\<close>.
\<close>

definition lists_created_file :: "('s, 'r) octokit \<Rightarrow> bool" where
  "lists_created_file oc =
     (\<forall>s ow rp dir nm msg content br e r s'.
        CHR ''/'' \<notin> set nm
        \<and> getContent oc s ow rp (dir @ ''/'' @ nm) br = Inl e
        \<and> status e = Inr (Some 404)
        \<and> createOrUpdateFileContents oc s ow rp (dir @ ''/'' @ nm) msg content br = (Inr r, s')
        \<longrightarrow> (\<exists>cs e0. getContent oc s' ow rp dir br = Inr (Array cs)
               \<and> filter (\<lambda>x. entry_path x = dir @ ''/'' @ nm) cs = [e0]
               \<and> entry_name e0 = nm \<and> entry_type e0 = ''file''))"

text \<open>A comparator is consistent when it orders the strings totally, up to ties.\<close>

definition consistent_compare :: "(string \<Rightarrow> string \<Rightarrow> int) \<Rightarrow> bool" where
  "consistent_compare cmp =
     ((\<forall>a b. cmp a b \<le> 0 \<or> cmp b a \<le> 0)
      \<and> (\<forall>a b c. cmp a b \<le> 0 \<and> cmp b c \<le> 0 \<longrightarrow> cmp a c \<le> 0))"

text \<open>The URL contains the branch marker.\<close>

definition has_marker :: "string \<Rightarrow> bool" where
  "has_marker url = (\<exists>before rest. url = before @ BRANCH @ ''/'' @ rest)"


section \<open>Evaluation and basic facts\<close>

lemmas outcome_defs = throws_def returns_def catch_rethrow_def

lemmas string_defs = ascii_upper_def ascii_lower_def ascii_digit_def toLowerCase_def
  toLowerCase_char_def endsWith_def startsWith_def split_js_def at_index_def
  numberToString_def digits.simps BRANCH_def

lemmas adapter_defs = config_missing_def raw_url_def SUPPORTED_IMAGE_EXTENSIONS_def
  IGNORED_FILES_def isImageFile_def shouldIgnoreFile_def name_class_def safeFileName_def
  maxSize_def upload_fileName_def upload_path_def listed_def

lemmas mem_defs = mem_octokit_def mem_getContent_def mem_createOrUpdateFileContents_def
  mem_deleteFile_def demo_config_def

lemma svc_name_class_eq: "svc_name_class c = name_class c"
  by (auto simp add: svc_name_class_def name_class_def)

lemma svc_safeFileName_eq: "svc_safeFileName nm = safeFileName nm"
  by (simp add: svc_safeFileName_def safeFileName_def svc_name_class_eq)


lemma run_photo:
  "uploadImage demo_config mem_octokit 1700000000000 demo_photo True [] =
     \<lparr>result = Inr ''https://raw.githubusercontent.com/acme/pics/main/public/images/1700000000000-photo_one.png'',
      repo_state = [(''public/images/1700000000000-photo_one.png'', Some ''iVBORw0KGgo='')],
      calls = [GetContent ''acme'' ''pics'' ''public/images/1700000000000-photo_one.png'' ''main'',
               CreateOrUpdateFileContents ''acme'' ''pics''
                 ''public/images/1700000000000-photo_one.png''
                 ''Upload image: 1700000000000-photo_one.png'' (Some ''iVBORw0KGgo='') ''main''],
      progress = [30, 60, 100]\<rparr>"
  by (simp add: uploadImage_def uploadImage_try_def outcome_defs mem_defs string_defs adapter_defs
        demo_photo_def Let_def)

lemma run_photo_svc:
  "svc_uploadImage demo_config mem_octokit 1700000000000 demo_photo True [] =
     \<lparr>result = Inr ''https://raw.githubusercontent.com/acme/pics/main/public/images/1700000000000-photo_one.png'',
      repo_state = [(''public/images/1700000000000-photo_one.png'', Some ''iVBORw0KGgo='')],
      calls = [CreateOrUpdateFileContents ''acme'' ''pics''
                 ''public/images/1700000000000-photo_one.png''
                 ''Upload image: 1700000000000-photo_one.png'' (Some ''iVBORw0KGgo='') ''main''],
      progress = [30, 60, 100]\<rparr>"
  by (simp add: svc_uploadImage_def svc_uploadImage_try_def outcome_defs mem_defs string_defs
        svc_safeFileName_def svc_name_class_def raw_url_def config_missing_def
        demo_photo_def Let_def)

lemma run_photo_collision:
  "uploadImage demo_config mem_octokit 1700000000000 demo_photo True
       [(''public/images/1700000000000-photo_one.png'', Some ''AAAA'')] =
     \<lparr>result = Inl (ErrorObject ''A file with this name already exists'' None),
      repo_state = [(''public/images/1700000000000-photo_one.png'', Some ''AAAA'')],
      calls = [GetContent ''acme'' ''pics'' ''public/images/1700000000000-photo_one.png'' ''main''],
      progress = [30, 60]\<rparr>"
  by (simp add: uploadImage_def uploadImage_try_def outcome_defs mem_defs string_defs adapter_defs
        demo_photo_def Let_def)

lemma run_photo_forbidden:
  "uploadImage demo_config
       (fixed_octokit (Inl (ErrorObject ''Forbidden'' (Some 403))) (Inr ()))
       1700000000000 demo_photo True 0 =
     \<lparr>result = Inl (ErrorObject ''Forbidden'' (Some 403)),
      repo_state = 0,
      calls = [GetContent ''acme'' ''pics'' ''public/images/1700000000000-photo_one.png'' ''main''],
      progress = [30, 60]\<rparr>"
  by (simp add: uploadImage_def uploadImage_try_def outcome_defs fixed_octokit_def demo_config_def
        string_defs adapter_defs demo_photo_def Let_def)

lemma run_notes:
  "uploadImage demo_config mem_octokit 1700000000000 demo_notes True [] =
     \<lparr>result = Inl (ErrorObject ''Only image files are allowed'' None),
      repo_state = [], calls = [], progress = []\<rparr>"
  by (simp add: uploadImage_def uploadImage_try_def outcome_defs mem_defs string_defs adapter_defs
        demo_notes_def Let_def)

lemma run_notes_svc:
  "svc_uploadImage demo_config mem_octokit 1700000000000 demo_notes True [] =
     \<lparr>result = Inr ''https://raw.githubusercontent.com/acme/pics/main/public/images/1700000000000-notes.txt'',
      repo_state = [(''public/images/1700000000000-notes.txt'', Some ''aGVsbG8gd29ybGQh'')],
      calls = [CreateOrUpdateFileContents ''acme'' ''pics''
                 ''public/images/1700000000000-notes.txt''
                 ''Upload image: 1700000000000-notes.txt'' (Some ''aGVsbG8gd29ybGQh'') ''main''],
      progress = [30, 60, 100]\<rparr>"
  by (simp add: svc_uploadImage_def svc_uploadImage_try_def outcome_defs mem_defs string_defs
        svc_safeFileName_def svc_name_class_def raw_url_def config_missing_def
        demo_notes_def Let_def)

lemma demo_photo_facts:
  "\<not> config_missing demo_config" "isImageFile (file_name demo_photo)"
  "file_size demo_photo \<le> maxSize"
  "file_dataURL demo_photo = Some ''data:image/png;base64,iVBORw0KGgo=''"
  "upload_path 1700000000000 demo_photo = ''public/images/1700000000000-photo_one.png''"
  "upload_fileName 1700000000000 demo_photo = ''1700000000000-photo_one.png''"
  by (simp_all add: demo_photo_def demo_config_def string_defs adapter_defs)


lemma uploadImage_success:
  assumes ok: "result (uploadImage cfg oc t f onP s) = Inr url"
  shows "\<not> config_missing cfg \<and> isImageFile (file_name f) \<and> file_size f \<le> maxSize
       \<and> (\<exists>d e r s'. file_dataURL f = Some d
            \<and> getContent oc s (REPO_OWNER cfg) (REPO_NAME cfg) (upload_path t f) BRANCH = Inl e
            \<and> status e = Inr (Some 404)
            \<and> createOrUpdateFileContents oc s (REPO_OWNER cfg) (REPO_NAME cfg) (upload_path t f)
                 (''Upload image: '' @ upload_fileName t f) (at_index (split_js d '','') 1) BRANCH
               = (Inr r, s')
            \<and> repo_state (uploadImage cfg oc t f onP s) = s'
            \<and> progress (uploadImage cfg oc t f onP s) = (if onP then [30, 60, 100] else []))
       \<and> url = raw_url cfg (upload_path t f)"
proof -
  have cfg: "\<not> config_missing cfg"
    by (rule ccontr) (use ok in \<open>simp add: uploadImage_def uploadImage_try_def outcome_defs\<close>)
  have img: "isImageFile (file_name f)"
    by (rule ccontr) (use ok cfg in \<open>simp add: uploadImage_def uploadImage_try_def outcome_defs\<close>)
  have size: "file_size f \<le> maxSize"
    by (rule ccontr) (use ok cfg img in \<open>simp add: uploadImage_def uploadImage_try_def outcome_defs\<close>)
  obtain d where d: "file_dataURL f = Some d"
    using ok cfg img size
    by (cases "file_dataURL f") (simp_all add: uploadImage_def uploadImage_try_def outcome_defs Let_def)
  obtain e where e: "getContent oc s (REPO_OWNER cfg) (REPO_NAME cfg) (upload_path t f) BRANCH = Inl e"
    using ok cfg img size d
    by (cases "getContent oc s (REPO_OWNER cfg) (REPO_NAME cfg) (upload_path t f) BRANCH")
       (simp_all add: uploadImage_def uploadImage_try_def outcome_defs Let_def)
  have st: "status e = Inr (Some 404)"
    using ok cfg img size d e
    by (cases e) (auto simp add: uploadImage_def uploadImage_try_def outcome_defs Let_def
           split: if_splits)
  obtain w s' where w: "createOrUpdateFileContents oc s (REPO_OWNER cfg) (REPO_NAME cfg) (upload_path t f)
                 (''Upload image: '' @ upload_fileName t f) (at_index (split_js d '','') 1) BRANCH
               = (w, s')"
    by (cases "createOrUpdateFileContents oc s (REPO_OWNER cfg) (REPO_NAME cfg) (upload_path t f)
                 (''Upload image: '' @ upload_fileName t f) (at_index (split_js d '','') 1) BRANCH")
  have run: "uploadImage cfg oc t f onP s =
     (case w of Inl e' \<Rightarrow> throws (if instanceofError e' then e'
                else ErrorObject ''Failed to upload image to GitHub'' None) s'
          [GetContent (REPO_OWNER cfg) (REPO_NAME cfg) (upload_path t f) BRANCH,
           CreateOrUpdateFileContents (REPO_OWNER cfg) (REPO_NAME cfg) (upload_path t f)
             (''Upload image: '' @ upload_fileName t f) (at_index (split_js d '','') 1) BRANCH]
          (if onP then [30, 60] else [])
      | Inr r \<Rightarrow> returns (raw_url cfg (upload_path t f)) s'
          [GetContent (REPO_OWNER cfg) (REPO_NAME cfg) (upload_path t f) BRANCH,
           CreateOrUpdateFileContents (REPO_OWNER cfg) (REPO_NAME cfg) (upload_path t f)
             (''Upload image: '' @ upload_fileName t f) (at_index (split_js d '','') 1) BRANCH]
          (if onP then [30, 60, 100] else []))"
    using cfg img size d e st w
    by (cases w) (simp_all add: uploadImage_def uploadImage_try_def outcome_defs Let_def)
  from ok run obtain r where r: "w = Inr r"
    by (cases w) (simp_all add: outcome_defs)
  from ok run r have "url = raw_url cfg (upload_path t f)"
    "repo_state (uploadImage cfg oc t f onP s) = s'"
    "progress (uploadImage cfg oc t f onP s) = (if onP then [30, 60, 100] else [])"
    by (simp_all add: outcome_defs)
  with cfg img size d e st w r show ?thesis by blast
qed

lemma svc_uploadImage_run:
  assumes "\<not> config_missing cfg" "file_dataURL f = Some d"
    "createOrUpdateFileContents oc s (REPO_OWNER cfg) (REPO_NAME cfg) (upload_path t f)
                 (''Upload image: '' @ upload_fileName t f) (at_index (split_js d '','') 1) BRANCH
               = (Inr r, s')"
  shows "svc_uploadImage cfg oc t f onP s =
      returns (raw_url cfg (upload_path t f)) s'
        [CreateOrUpdateFileContents (REPO_OWNER cfg) (REPO_NAME cfg) (upload_path t f)
             (''Upload image: '' @ upload_fileName t f) (at_index (split_js d '','') 1) BRANCH]
        (if onP then [30, 60, 100] else [])"
  using assms
  by (simp add: svc_uploadImage_def svc_uploadImage_try_def outcome_defs Let_def
        svc_safeFileName_eq upload_path_def upload_fileName_def)

lemma svc_uploadImage_success:
  assumes ok: "result (svc_uploadImage cfg oc t f onP s) = Inr url"
  shows "url = raw_url cfg (upload_path t f)"
proof -
  have cfg: "\<not> config_missing cfg"
    by (rule ccontr) (use ok in \<open>simp add: svc_uploadImage_def svc_uploadImage_try_def outcome_defs\<close>)
  obtain d where d: "file_dataURL f = Some d"
    using ok cfg
    by (cases "file_dataURL f") (simp_all add: svc_uploadImage_def svc_uploadImage_try_def outcome_defs Let_def)
  obtain w s' where w: "createOrUpdateFileContents oc s (REPO_OWNER cfg) (REPO_NAME cfg) (upload_path t f)
                 (''Upload image: '' @ upload_fileName t f) (at_index (split_js d '','') 1) BRANCH
               = (w, s')"
    by (cases "createOrUpdateFileContents oc s (REPO_OWNER cfg) (REPO_NAME cfg) (upload_path t f)
                 (''Upload image: '' @ upload_fileName t f) (at_index (split_js d '','') 1) BRANCH")
  from ok cfg d w show ?thesis
    by (cases w) (simp_all add: svc_uploadImage_def svc_uploadImage_try_def outcome_defs Let_def
        svc_safeFileName_eq upload_path_def upload_fileName_def)
qed

lemma raw_url_form:
  "raw_url cfg (upload_path t f) =
     ''https://raw.githubusercontent.com/'' @ REPO_OWNER cfg @ ''/'' @ REPO_NAME cfg
       @ ''/main/public/images/'' @ numberToString t @ ''-'' @ safeFileName (file_name f)"
  by (simp add: raw_url_def upload_path_def upload_fileName_def BRANCH_def)


section \<open>Sanitization of the declared name\<close>

text \<open>
  C2, as stated: every sanitized name matches \<^verbatim>\<open>^[A-Za-z0-9.-]+$\<close>. It does not: a code
  unit outside the class is replaced by an underscore, which is outside the class too.
  The name \<^verbatim>\<open>photo one.png\<close> becomes \<^verbatim>\<open>photo_one.png\<close>.
\<close>

theorem sanitized_name_outside_pattern:
  "safeFileName ''photo one.png'' = ''photo_one.png''
   \<and> \<not> spec_name_pattern (safeFileName ''photo one.png'')"
  by (simp add: safeFileName_def name_class_def spec_name_pattern_def
        ascii_lower_def ascii_upper_def ascii_digit_def)

text \<open>
  C2, amended: sanitization is total and idempotent. For every name the sanitized name
  has the length of the name and consists of code units of \<^verbatim>\<open>[A-Za-z0-9.-]\<close> and
  underscores (it matches \<^verbatim>\<open>^[A-Za-z0-9._-]*$\<close>), and sanitizing it again returns it
  unchanged.
\<close>

theorem safeFileName_total_idempotent:
  "length (safeFileName nm) = length nm
   \<and> list_all (\<lambda>c. c \<in> set (ascii_upper @ ascii_lower @ ascii_digit @ ''.-_'')) (safeFileName nm)
   \<and> safeFileName (safeFileName nm) = safeFileName nm"
proof -
  have len: "length (safeFileName nm) = length nm"
    by (simp add: safeFileName_def)
  have chars: "list_all (\<lambda>c. c \<in> set (ascii_upper @ ascii_lower @ ascii_digit @ ''.-_''))
                 (safeFileName nm)"
    by (induction nm) (auto simp add: safeFileName_def name_class_def)
  have idem: "safeFileName (safeFileName nm) = safeFileName nm"
    by (induction nm) (simp_all add: safeFileName_def)
  from len chars idem show ?thesis by blast
qed


section \<open>Validation before the first request\<close>

text \<open>
  C5: a file whose name does not end in a recognized image extension, or whose size is
  above the ceiling of 25 MiB, is rejected by the store operation: the call throws, no
  request has been sent and the backing store is as it was. With the configuration
  present the error is one of the two validation errors.
\<close>

theorem uploadImage_rejects_before_any_request:
  assumes "\<not> isImageFile (file_name f) \<or> maxSize < file_size f"
  shows "(\<exists>e. result (uploadImage cfg oc t f onP s) = Inl e)
       \<and> calls (uploadImage cfg oc t f onP s) = []
       \<and> repo_state (uploadImage cfg oc t f onP s) = s
       \<and> (\<not> config_missing cfg \<longrightarrow>
            result (uploadImage cfg oc t f onP s)
              = Inl (ErrorObject ''Only image files are allowed'' None)
          \<or> result (uploadImage cfg oc t f onP s)
              = Inl (ErrorObject ''File size must be less than 25MB'' None))
       \<and> maxSize = 25 * 2 ^ 20"
  using assms
  by (auto simp add: uploadImage_def uploadImage_try_def outcome_defs maxSize_def)

text \<open>The 30 MB JPEG of the scenario.\<close>

theorem uploadImage_rejects_before_any_request_witness:
  "isImageFile (file_name demo_big_jpeg)
   \<and> maxSize < file_size demo_big_jpeg
   \<and> result (uploadImage demo_config mem_octokit 1700000000000 demo_big_jpeg True [])
       = Inl (ErrorObject ''File size must be less than 25MB'' None)
   \<and> calls (uploadImage demo_config mem_octokit 1700000000000 demo_big_jpeg True []) = []
   \<and> repo_state (uploadImage demo_config mem_octokit 1700000000000 demo_big_jpeg True []) = []"
proof -
  have img: "isImageFile (file_name demo_big_jpeg)"
    by (simp add: demo_big_jpeg_def string_defs adapter_defs)
  have big: "maxSize < file_size demo_big_jpeg"
    by (simp add: demo_big_jpeg_def maxSize_def)
  have cfg: "\<not> config_missing demo_config"
    by (simp add: config_missing_def demo_config_def)
  from big have hyp: "\<not> isImageFile (file_name demo_big_jpeg) \<or> maxSize < file_size demo_big_jpeg"
    by simp
  from uploadImage_rejects_before_any_request
         [OF hyp, of demo_config mem_octokit 1700000000000 True "[]"] img big cfg
  show ?thesis
    by (auto simp add: uploadImage_def uploadImage_try_def outcome_defs)
qed


section \<open>The probe before the write\<close>

text \<open>
  C6: once configuration, validation and the reading of the file have passed, the store
  operation sends the probe of the candidate path, and sends the write after it exactly
  when the probe failed with status 404. In that case the state it leaves is the state the
  client's write left, and it returns the URL when that write succeeded and throws when
  it threw. A probe that finds content makes the call fail with the "already exists"
  error, a probe that fails with anything but status 404 makes the call fail too, and in
  both cases the probe is the only request and the backing store is unchanged.
\<close>

theorem uploadImage_probe_decides_write:
  assumes "\<not> config_missing cfg" "isImageFile (file_name f)" "file_size f \<le> maxSize"
    "file_dataURL f = Some d"
  shows "calls (uploadImage cfg oc t f onP s) =
           GetContent (REPO_OWNER cfg) (REPO_NAME cfg) (upload_path t f) BRANCH
           # (if \<exists>e. getContent oc s (REPO_OWNER cfg) (REPO_NAME cfg) (upload_path t f) BRANCH = Inl e
                     \<and> status e = Inr (Some 404)
              then [CreateOrUpdateFileContents (REPO_OWNER cfg) (REPO_NAME cfg) (upload_path t f)
                      (''Upload image: '' @ upload_fileName t f) (at_index (split_js d '','') 1) BRANCH]
              else [])
       \<and> ((\<exists>e. getContent oc s (REPO_OWNER cfg) (REPO_NAME cfg) (upload_path t f) BRANCH = Inl e
               \<and> status e = Inr (Some 404)) \<longrightarrow>
             repo_state (uploadImage cfg oc t f onP s) =
               snd (createOrUpdateFileContents oc s (REPO_OWNER cfg) (REPO_NAME cfg) (upload_path t f)
                      (''Upload image: '' @ upload_fileName t f) (at_index (split_js d '','') 1) BRANCH)
             \<and> result (uploadImage cfg oc t f onP s) =
               (case fst (createOrUpdateFileContents oc s (REPO_OWNER cfg) (REPO_NAME cfg)
                      (upload_path t f) (''Upload image: '' @ upload_fileName t f)
                      (at_index (split_js d '','') 1) BRANCH) of
                  Inl e' \<Rightarrow> Inl (if instanceofError e' then e'
                                 else ErrorObject ''Failed to upload image to GitHub'' None)
                | Inr r \<Rightarrow> Inr (raw_url cfg (upload_path t f))))
       \<and> ((\<exists>c. getContent oc s (REPO_OWNER cfg) (REPO_NAME cfg) (upload_path t f) BRANCH = Inr c) \<longrightarrow>
             result (uploadImage cfg oc t f onP s)
               = Inl (ErrorObject ''A file with this name already exists'' None)
             \<and> repo_state (uploadImage cfg oc t f onP s) = s)
       \<and> ((\<exists>e. getContent oc s (REPO_OWNER cfg) (REPO_NAME cfg) (upload_path t f) BRANCH = Inl e
               \<and> status e \<noteq> Inr (Some 404)) \<longrightarrow>
             (\<exists>e'. result (uploadImage cfg oc t f onP s) = Inl e')
             \<and> repo_state (uploadImage cfg oc t f onP s) = s)"
proof (cases "getContent oc s (REPO_OWNER cfg) (REPO_NAME cfg) (upload_path t f) BRANCH")
  case (Inr c)
  with assms show ?thesis
    by (simp add: uploadImage_def uploadImage_try_def outcome_defs Let_def)
next
  case (Inl e)
  show ?thesis
  proof (cases "status e")
    case (Inl te)
    with \<open>getContent oc s (REPO_OWNER cfg) (REPO_NAME cfg) (upload_path t f) BRANCH = Inl e\<close> assms
    show ?thesis
      by (cases te) (simp_all add: uploadImage_def uploadImage_try_def outcome_defs Let_def)
  next
    case (Inr st)
    with \<open>getContent oc s (REPO_OWNER cfg) (REPO_NAME cfg) (upload_path t f) BRANCH = Inl e\<close> assms
    show ?thesis
      by (cases e)
         (simp_all add: uploadImage_def uploadImage_try_def outcome_defs Let_def
            split: prod.splits sum.splits)
  qed
qed

text \<open>A fresh path (probe and write, the file is in the store afterwards), a path that
  is taken (probe only, collision) and a probe that is refused with status 403 (probe
  only).\<close>

theorem uploadImage_probe_decides_write_witness:
  "\<not> config_missing demo_config \<and> isImageFile (file_name demo_photo)
   \<and> file_size demo_photo \<le> maxSize
   \<and> file_dataURL demo_photo = Some ''data:image/png;base64,iVBORw0KGgo=''
   \<and> uploadImage demo_config mem_octokit 1700000000000 demo_photo True [] =
       \<lparr>result = Inr ''https://raw.githubusercontent.com/acme/pics/main/public/images/1700000000000-photo_one.png'',
        repo_state = [(''public/images/1700000000000-photo_one.png'', Some ''iVBORw0KGgo='')],
        calls = [GetContent ''acme'' ''pics'' ''public/images/1700000000000-photo_one.png'' ''main'',
                 CreateOrUpdateFileContents ''acme'' ''pics''
                   ''public/images/1700000000000-photo_one.png''
                   ''Upload image: 1700000000000-photo_one.png'' (Some ''iVBORw0KGgo='') ''main''],
        progress = [30, 60, 100]\<rparr>
   \<and> repo_state (uploadImage demo_config mem_octokit 1700000000000 demo_photo True []) =
       snd (createOrUpdateFileContents mem_octokit [] ''acme'' ''pics''
              ''public/images/1700000000000-photo_one.png''
              ''Upload image: 1700000000000-photo_one.png'' (Some ''iVBORw0KGgo='') ''main'')
   \<and> uploadImage demo_config mem_octokit 1700000000000 demo_photo True
         [(''public/images/1700000000000-photo_one.png'', Some ''AAAA'')] =
       \<lparr>result = Inl (ErrorObject ''A file with this name already exists'' None),
        repo_state = [(''public/images/1700000000000-photo_one.png'', Some ''AAAA'')],
        calls = [GetContent ''acme'' ''pics'' ''public/images/1700000000000-photo_one.png'' ''main''],
        progress = [30, 60]\<rparr>
   \<and> uploadImage demo_config
         (fixed_octokit (Inl (ErrorObject ''Forbidden'' (Some 403))) (Inr ()))
         1700000000000 demo_photo True 0 =
       \<lparr>result = Inl (ErrorObject ''Forbidden'' (Some 403)),
        repo_state = 0,
        calls = [GetContent ''acme'' ''pics'' ''public/images/1700000000000-photo_one.png'' ''main''],
        progress = [30, 60]\<rparr>"
proof -
  have nf: "\<exists>e. getContent mem_octokit [] (REPO_OWNER demo_config) (REPO_NAME demo_config)
                (upload_path 1700000000000 demo_photo) BRANCH = Inl e
              \<and> status e = Inr (Some 404)"
    by (simp add: demo_photo_facts mem_defs)
  from uploadImage_probe_decides_write
         [OF demo_photo_facts(1-4), of mem_octokit 1700000000000 True "[]"] nf
  have "repo_state (uploadImage demo_config mem_octokit 1700000000000 demo_photo True []) =
          snd (createOrUpdateFileContents mem_octokit [] (REPO_OWNER demo_config)
                 (REPO_NAME demo_config) (upload_path 1700000000000 demo_photo)
                 (''Upload image: '' @ upload_fileName 1700000000000 demo_photo)
                 (at_index (split_js ''data:image/png;base64,iVBORw0KGgo='' '','') 1) BRANCH)"
    by blast
  then have written: "repo_state (uploadImage demo_config mem_octokit 1700000000000 demo_photo True []) =
       snd (createOrUpdateFileContents mem_octokit [] ''acme'' ''pics''
              ''public/images/1700000000000-photo_one.png''
              ''Upload image: 1700000000000-photo_one.png'' (Some ''iVBORw0KGgo='') ''main'')"
    by (simp add: demo_photo_facts demo_config_def BRANCH_def split_js_def at_index_def)
  from written demo_photo_facts(1-4) run_photo run_photo_collision run_photo_forbidden
  show ?thesis by blast
qed


section \<open>The returned URL\<close>

text \<open>
  C7: when the store operation succeeds, with whatever client and whatever response of the
  write, the URL it returns is
  \<^verbatim>\<open>https://raw.githubusercontent.com/<owner>/<repo>/main/public/images/<millis>-<sanitized name>\<close>,
  built from the configuration, the timestamp and the file name alone. This holds for
  both service files.
\<close>

theorem uploadImage_url_from_coordinates:
  "(result (uploadImage cfg oc t f onP s) = Inr url \<longrightarrow>
      url = ''https://raw.githubusercontent.com/'' @ REPO_OWNER cfg @ ''/'' @ REPO_NAME cfg
            @ ''/main/public/images/'' @ numberToString t @ ''-'' @ safeFileName (file_name f))
   \<and> (result (svc_uploadImage cfg oc' t f onP s) = Inr url \<longrightarrow>
      url = ''https://raw.githubusercontent.com/'' @ REPO_OWNER cfg @ ''/'' @ REPO_NAME cfg
            @ ''/main/public/images/'' @ numberToString t @ ''-'' @ safeFileName (file_name f))"
  using uploadImage_success [of cfg oc t f onP s url]
    svc_uploadImage_success [of cfg oc' t f onP s url] raw_url_form [of cfg t f]
  by blast

theorem uploadImage_url_from_coordinates_witness:
  "result (uploadImage demo_config mem_octokit 1700000000000 demo_photo True []) =
     Inr ''https://raw.githubusercontent.com/acme/pics/main/public/images/1700000000000-photo_one.png''
   \<and> result (svc_uploadImage demo_config mem_octokit 1700000000000 demo_photo True []) =
     Inr ''https://raw.githubusercontent.com/acme/pics/main/public/images/1700000000000-photo_one.png''
   \<and> ''https://raw.githubusercontent.com/acme/pics/main/public/images/1700000000000-photo_one.png'' =
       ''https://raw.githubusercontent.com/'' @ REPO_OWNER demo_config @ ''/''
         @ REPO_NAME demo_config @ ''/main/public/images/'' @ numberToString 1700000000000
         @ ''-'' @ safeFileName (file_name demo_photo)"
  using uploadImage_url_from_coordinates
          [of demo_config mem_octokit 1700000000000 demo_photo True "[]"
              "''https://raw.githubusercontent.com/acme/pics/main/public/images/1700000000000-photo_one.png''"
              mem_octokit]
    run_photo run_photo_svc
  by simp


section \<open>The two store operations\<close>

text \<open>
  C10, as stated: the two \<^verbatim>\<open>uploadImage\<close> functions fail together or succeed together.
  They do not: the earlier service has no validation and no probe. A text file is
  rejected by one and stored by the other.
\<close>

theorem uploadImage_variants_differ:
  "result (uploadImage demo_config mem_octokit 1700000000000 demo_notes True [])
     = Inl (ErrorObject ''Only image files are allowed'' None)
   \<and> repo_state (uploadImage demo_config mem_octokit 1700000000000 demo_notes True []) = []
   \<and> result (svc_uploadImage demo_config mem_octokit 1700000000000 demo_notes True [])
     = Inr ''https://raw.githubusercontent.com/acme/pics/main/public/images/1700000000000-notes.txt''
   \<and> repo_state (svc_uploadImage demo_config mem_octokit 1700000000000 demo_notes True [])
     = [(''public/images/1700000000000-notes.txt'', Some ''aGVsbG8gd29ybGQh'')]"
  by (simp add: run_notes run_notes_svc)

text \<open>
  C10, amended: whenever the \<^verbatim>\<open>uploadImage\<close> of the unnamed service file succeeds, the
  \<^verbatim>\<open>uploadImage\<close> of services/uploadService.ts, on the same file, timestamp, client and
  backing-store state, succeeds with the same URL, leaves the same backing-store state and
  reports the same progress.
\<close>

theorem svc_uploadImage_agrees_on_success:
  assumes "result (uploadImage cfg oc t f onP s) = Inr url"
  shows "result (svc_uploadImage cfg oc t f onP s) = Inr url
       \<and> repo_state (svc_uploadImage cfg oc t f onP s) = repo_state (uploadImage cfg oc t f onP s)
       \<and> progress (svc_uploadImage cfg oc t f onP s) = progress (uploadImage cfg oc t f onP s)"
proof -
  from uploadImage_success [OF assms] obtain d r s' where
    "\<not> config_missing cfg" "file_dataURL f = Some d"
    "createOrUpdateFileContents oc s (REPO_OWNER cfg) (REPO_NAME cfg) (upload_path t f)
                 (''Upload image: '' @ upload_fileName t f) (at_index (split_js d '','') 1) BRANCH
               = (Inr r, s')"
    "repo_state (uploadImage cfg oc t f onP s) = s'"
    "progress (uploadImage cfg oc t f onP s) = (if onP then [30, 60, 100] else [])"
    "url = raw_url cfg (upload_path t f)"
    by blast
  with svc_uploadImage_run [of cfg f d oc s t r s' onP] show ?thesis
    by (simp add: outcome_defs)
qed

theorem svc_uploadImage_agrees_on_success_witness:
  "result (uploadImage demo_config mem_octokit 1700000000000 demo_photo True []) =
     Inr ''https://raw.githubusercontent.com/acme/pics/main/public/images/1700000000000-photo_one.png''
   \<and> result (svc_uploadImage demo_config mem_octokit 1700000000000 demo_photo True []) =
     Inr ''https://raw.githubusercontent.com/acme/pics/main/public/images/1700000000000-photo_one.png''
   \<and> repo_state (svc_uploadImage demo_config mem_octokit 1700000000000 demo_photo True []) =
     repo_state (uploadImage demo_config mem_octokit 1700000000000 demo_photo True [])"
proof -
  have ok: "result (uploadImage demo_config mem_octokit 1700000000000 demo_photo True []) =
     Inr ''https://raw.githubusercontent.com/acme/pics/main/public/images/1700000000000-photo_one.png''"
    by (simp add: run_photo)
  from svc_uploadImage_agrees_on_success [OF ok] ok show ?thesis by simp
qed


section \<open>Listing never throws\<close>

text \<open>
  C3: the list operation of either service file always returns a sequence. When the
  configuration is missing, or when the read of the directory throws anything at all
  (status 404 or any other failure), it returns the empty sequence.
\<close>

theorem getUploadedImages_never_throws:
  "(\<exists>urls. result (getUploadedImages cfg oc lc s) = Inr urls)
   \<and> (\<exists>urls. result (svc_getUploadedImages cfg oc s) = Inr urls)
   \<and> (config_missing cfg
        \<or> (\<exists>e. getContent oc s (REPO_OWNER cfg) (REPO_NAME cfg) ''public/images'' BRANCH = Inl e)
      \<longrightarrow> result (getUploadedImages cfg oc lc s) = Inr []
          \<and> result (svc_getUploadedImages cfg oc s) = Inr [])"
  by (auto simp add: getUploadedImages_def getUploadedImages_try_def svc_getUploadedImages_def
        svc_getUploadedImages_try_def outcome_defs Let_def
      split: sum.splits contents.splits)

text \<open>A directory that does not exist (status 404), a server error (status 500), a
  thrown \<^verbatim>\<open>null\<close>, and a missing configuration.\<close>

theorem getUploadedImages_never_throws_witness:
  "getContent mem_octokit [] ''acme'' ''pics'' ''public/images'' BRANCH
     = Inl (ErrorObject ''Not Found'' (Some 404))
   \<and> result (getUploadedImages demo_config mem_octokit compare_units []) = Inr []
   \<and> result (svc_getUploadedImages demo_config mem_octokit []) = Inr []
   \<and> result (getUploadedImages demo_config
        (fixed_octokit (Inl (ErrorObject ''Server Error'' (Some 500))) (Inr ())) compare_units 0)
       = Inr []
   \<and> result (getUploadedImages demo_config (fixed_octokit (Inl Nullish) (Inr ())) compare_units 0)
       = Inr []
   \<and> result (getUploadedImages \<lparr>GITHUB_TOKEN = [], REPO_OWNER = ''acme'', REPO_NAME = ''pics''\<rparr>
        mem_octokit compare_units []) = Inr []"
proof -
  have nf: "getContent mem_octokit [] ''acme'' ''pics'' ''public/images'' BRANCH
     = Inl (ErrorObject ''Not Found'' (Some 404))"
    by (simp add: mem_defs)
  then have a: "\<exists>e. getContent mem_octokit [] (REPO_OWNER demo_config) (REPO_NAME demo_config)
                 ''public/images'' BRANCH = Inl e"
    by (simp add: demo_config_def)
  have b: "\<exists>e. getContent (fixed_octokit (Inl (ErrorObject ''Server Error'' (Some 500))) (Inr ()))
              0 (REPO_OWNER demo_config) (REPO_NAME demo_config) ''public/images'' BRANCH = Inl e"
    by (simp add: fixed_octokit_def)
  have c: "\<exists>e. getContent (fixed_octokit (Inl Nullish) (Inr ()))
              0 (REPO_OWNER demo_config) (REPO_NAME demo_config) ''public/images'' BRANCH = Inl e"
    by (simp add: fixed_octokit_def)
  have d: "config_missing \<lparr>GITHUB_TOKEN = [], REPO_OWNER = ''acme'', REPO_NAME = ''pics''\<rparr>"
    by (simp add: config_missing_def)
  from nf a b c d
    getUploadedImages_never_throws [of demo_config mem_octokit compare_units "[]"]
    getUploadedImages_never_throws
      [of demo_config "fixed_octokit (Inl (ErrorObject ''Server Error'' (Some 500))) (Inr ())"
          compare_units 0]
    getUploadedImages_never_throws
      [of demo_config "fixed_octokit (Inl Nullish) (Inr ())" compare_units 0]
    getUploadedImages_never_throws
      [of "\<lparr>GITHUB_TOKEN = [], REPO_OWNER = ''acme'', REPO_NAME = ''pics''\<rparr>"
          mem_octokit compare_units "[]"]
  show ?thesis by blast
qed


section \<open>Names, extensions and the sort\<close>

lemma endsWith_iff: "endsWith s suf \<longleftrightarrow> (\<exists>pre. s = pre @ suf)"
proof
  assume "endsWith s suf"
  then have "s = take (length s - length suf) s @ suf"
    unfolding endsWith_def by (metis append_take_drop_id)
  then show "\<exists>pre. s = pre @ suf" ..
next
  assume "\<exists>pre. s = pre @ suf"
  then show "endsWith s suf" by (auto simp: endsWith_def)
qed

lemma isImageFile_iff:
  "isImageFile nm \<longleftrightarrow>
     (\<exists>stem ext. nm = stem @ ext \<and> toLowerCase ext \<in> set SUPPORTED_IMAGE_EXTENSIONS)"
proof
  assume "isImageFile nm"
  then obtain x pre where x: "x \<in> set SUPPORTED_IMAGE_EXTENSIONS" and "toLowerCase nm = pre @ x"
    by (auto simp: isImageFile_def list_ex_iff endsWith_iff)
  then obtain stem ext where "nm = stem @ ext" "toLowerCase ext = x"
    unfolding toLowerCase_def by (auto simp: map_eq_append_conv)
  with x show "\<exists>stem ext. nm = stem @ ext \<and> toLowerCase ext \<in> set SUPPORTED_IMAGE_EXTENSIONS"
    by blast
next
  assume "\<exists>stem ext. nm = stem @ ext \<and> toLowerCase ext \<in> set SUPPORTED_IMAGE_EXTENSIONS"
  then obtain stem ext where "nm = stem @ ext" "toLowerCase ext \<in> set SUPPORTED_IMAGE_EXTENSIONS"
    by blast
  then show "isImageFile nm"
    unfolding isImageFile_def Let_def list_ex_iff endsWith_iff
    by (auto simp: toLowerCase_def)
qed

lemma toLowerCase_char_cases: "toLowerCase_char c = c \<or> c \<in> set ascii_upper"
  unfolding toLowerCase_char_def
  by (auto split: option.splits dest!: map_of_SomeD set_zip_leftD)

lemma name_class_lower: "name_class (toLowerCase_char c) \<Longrightarrow> name_class c"
  using toLowerCase_char_cases [of c] by (auto simp: name_class_def)

lemma extension_chars:
  "x \<in> set SUPPORTED_IMAGE_EXTENSIONS \<Longrightarrow> list_all name_class x"
  by (auto simp: SUPPORTED_IMAGE_EXTENSIONS_def name_class_def ascii_lower_def)

lemma safeFileName_keeps:
  "list_all name_class (toLowerCase ext) \<Longrightarrow> safeFileName ext = ext"
  by (induction ext) (auto simp: safeFileName_def toLowerCase_def dest: name_class_lower)

lemma safeFileName_append: "safeFileName (a @ b) = safeFileName a @ safeFileName b"
  by (simp add: safeFileName_def)

lemma isImageFile_sanitized:
  assumes "isImageFile nm"
  shows "isImageFile (pre @ safeFileName nm)"
proof -
  from assms obtain stem ext where nm: "nm = stem @ ext"
    and ext: "toLowerCase ext \<in> set SUPPORTED_IMAGE_EXTENSIONS"
    unfolding isImageFile_iff by blast
  from ext have "safeFileName ext = ext"
    by (intro safeFileName_keeps extension_chars)
  with nm have "pre @ safeFileName nm = (pre @ safeFileName stem) @ ext"
    by (simp add: safeFileName_append)
  with ext show ?thesis
    unfolding isImageFile_iff by blast
qed

lemma digits_head: "digits n \<noteq> [] \<and> hd (digits n) \<in> set ascii_digit"
proof (induction n rule: digits.induct)
  case (1 n)
  show ?case
  proof (cases "n < 10")
    case True
    then have "ascii_digit ! n \<in> set ascii_digit"
      by (intro nth_mem) (simp add: ascii_digit_def)
    with True show ?thesis by (subst (1 2) digits.simps) simp
  next
    case False
    with 1 show ?thesis by (subst (1 2) digits.simps) simp
  qed
qed

lemma numberToString_head:
  "\<exists>c rest. numberToString t = c # rest \<and> c \<in> set (''-'' @ ascii_digit)"
proof (cases "t < 0")
  case True
  then show ?thesis by (simp add: numberToString_def)
next
  case False
  with digits_head [of "nat t"] show ?thesis
    by (cases "digits (nat t)") (auto simp: numberToString_def)
qed

lemma fileName_not_ignored: "\<not> shouldIgnoreFile (upload_fileName t f)"
proof -
  from numberToString_head [of t] obtain c rest where
    "numberToString t = c # rest" "c \<in> set (''-'' @ ascii_digit)" by blast
  then show ?thesis
    by (auto simp: upload_fileName_def shouldIgnoreFile_def IGNORED_FILES_def startsWith_def
          ascii_digit_def)
qed

lemma mset_insert_by: "mset (insert_by cmp x ys) = add_mset x (mset ys)"
  by (induction ys) auto

lemma mset_sort_js: "mset (sort_js cmp xs) = mset xs"
  by (induction xs) (auto simp: mset_insert_by)

lemma filter_sort_js_length:
  "length (filter P (sort_js cmp xs)) = length (filter P xs)"
proof -
  have "mset (filter P (sort_js cmp xs)) = mset (filter P xs)"
    by (simp add: mset_sort_js)
  then show ?thesis by (metis size_mset)
qed

lemma count_raw_url:
  "count_list (map (\<lambda>e. raw_url cfg (entry_path e)) xs) (raw_url cfg p)
     = length (filter (\<lambda>e. entry_path e = p) xs)"
  by (induction xs) (auto simp: raw_url_def)

lemma startsWith_dot:
  "startsWith nm ''.'' \<longleftrightarrow> (case nm of [] \<Rightarrow> False | c # cs \<Rightarrow> c = CHR ''.'')"
  by (cases nm) (auto simp: startsWith_def)

lemma listed_iff: "listed e \<longleftrightarrow> spec_listed e"
  unfolding listed_def spec_listed_def shouldIgnoreFile_def isImageFile_iff startsWith_dot
  by (auto split: list.splits)

lemma set_insert_by: "set (insert_by cmp x ys) = insert x (set ys)"
  by (induction ys) auto

lemma sorted_insert_by:
  assumes total: "\<And>a b. cmp a b \<le> 0 \<or> cmp b a \<le> 0"
      and trans: "\<And>a b c. cmp a b \<le> 0 \<Longrightarrow> cmp b c \<le> 0 \<Longrightarrow> cmp a c \<le> 0"
      and "sorted_wrt (\<lambda>a b. cmp a b \<le> 0) ys"
  shows "sorted_wrt (\<lambda>a b. cmp a b \<le> 0) (insert_by cmp x ys)"
  using assms(3)
proof (induction ys)
  case Nil
  then show ?case by simp
next
  case (Cons y ys)
  show ?case
  proof (cases "cmp x y \<le> 0")
    case True
    then have "\<forall>z\<in>set ys. cmp x z \<le> 0"
      using Cons.prems trans by auto
    with True Cons.prems show ?thesis by simp
  next
    case False
    then have "cmp y x \<le> 0" using total [of x y] by simp
    with False Cons show ?thesis by (auto simp: set_insert_by)
  qed
qed

lemma sorted_sort_js:
  assumes total: "\<And>a b. cmp a b \<le> 0 \<or> cmp b a \<le> 0"
      and trans: "\<And>a b c. cmp a b \<le> 0 \<Longrightarrow> cmp b c \<le> 0 \<Longrightarrow> cmp a c \<le> 0"
  shows "sorted_wrt (\<lambda>a b. cmp a b \<le> 0) (sort_js cmp xs)"
proof (induction xs)
  case Nil
  show ?case by simp
next
  case (Cons x xs)
  from sorted_insert_by [of cmp "sort_js cmp xs" x, OF total trans Cons.IH]
  show ?case by simp
qed

lemma sorted_by_name:
  assumes "consistent_compare lc"
  shows "sorted_wrt (\<lambda>a b. lc (entry_name b) (entry_name a) \<le> 0)
           (sort_js (\<lambda>a b. lc (entry_name b) (entry_name a)) (xs :: entry list))"
proof -
  from assms have tot: "\<And>a b. lc a b \<le> 0 \<or> lc b a \<le> 0"
    unfolding consistent_compare_def by blast
  from assms have tr: "\<And>a b c. lc a b \<le> 0 \<Longrightarrow> lc b c \<le> 0 \<Longrightarrow> lc a c \<le> 0"
    unfolding consistent_compare_def by blast
  have total: "lc (entry_name b) (entry_name a) \<le> 0 \<or> lc (entry_name a) (entry_name b) \<le> 0"
    for a b :: entry
    by (rule tot)
  have trans: "lc (entry_name c) (entry_name a) \<le> 0"
    if "lc (entry_name b) (entry_name a) \<le> 0" "lc (entry_name c) (entry_name b) \<le> 0"
    for a b c :: entry
    using that(2) that(1) by (rule tr)
  let ?cmp = "\<lambda>a b :: entry. lc (entry_name b) (entry_name a)"
  from sorted_sort_js [of ?cmp xs, OF total trans]
  show ?thesis .
qed

lemma getUploadedImages_run:
  assumes "\<not> config_missing cfg"
    "getContent oc s (REPO_OWNER cfg) (REPO_NAME cfg) ''public/images'' BRANCH = Inr (Array cs)"
  shows "getUploadedImages cfg oc lc s =
     returns (map (\<lambda>e. raw_url cfg (entry_path e))
                (sort_js (\<lambda>a b. lc (entry_name b) (entry_name a)) (filter listed cs)))
       s [GetContent (REPO_OWNER cfg) (REPO_NAME cfg) ''public/images'' BRANCH] []"
  using assms
  by (simp add: getUploadedImages_def getUploadedImages_try_def outcome_defs Let_def)


lemma compare_units_total: "compare_units a b \<le> 0 \<or> compare_units b a \<le> 0"
  by (induction a b rule: compare_units.induct) auto

lemma compare_units_trans:
  "compare_units a b \<le> 0 \<Longrightarrow> compare_units b c \<le> 0 \<Longrightarrow> compare_units a c \<le> 0"
proof (induction a arbitrary: b c)
  case Nil
  then show ?case by (cases c) auto
next
  case (Cons x xs)
  then show ?case
    by (cases b; cases c) (auto split: if_splits)
qed

lemma consistent_compare_units: "consistent_compare compare_units"
  unfolding consistent_compare_def
  using compare_units_total compare_units_trans by blast


section \<open>The listing\<close>

text \<open>
  C4: for every directory snapshot, with the configuration present and a consistent
  collation, the list operation returns the retrieval URLs of a sequence \<open>kept\<close> of
  entries that holds exactly the entries of the snapshot that are of type "file", are
  not on the ignore list, do not start with a dot and end in a recognized image extension
  whatever the case of its letters (each as often as the snapshot has it), and that is
  ordered by name descending in the collation.
\<close>

theorem getUploadedImages_filters_sorts_maps:
  assumes "\<not> config_missing cfg"
    and "getContent oc s (REPO_OWNER cfg) (REPO_NAME cfg) ''public/images'' BRANCH = Inr (Array cs)"
    and "consistent_compare lc"
  shows "\<exists>kept. result (getUploadedImages cfg oc lc s)
                  = Inr (map (\<lambda>e. ''https://raw.githubusercontent.com/'' @ REPO_OWNER cfg @ ''/''
                                   @ REPO_NAME cfg @ ''/main/'' @ entry_path e) kept)
              \<and> mset kept = filter_mset spec_listed (mset cs)
              \<and> sorted_wrt (\<lambda>a b. lc (entry_name b) (entry_name a) \<le> 0) kept"
proof -
  let ?kept = "sort_js (\<lambda>a b. lc (entry_name b) (entry_name a)) (filter listed cs)"
  have "result (getUploadedImages cfg oc lc s) = Inr (map (\<lambda>e. raw_url cfg (entry_path e)) ?kept)"
    using getUploadedImages_run [OF assms(1,2)] by (simp add: outcome_defs)
  then have "result (getUploadedImages cfg oc lc s)
                  = Inr (map (\<lambda>e. ''https://raw.githubusercontent.com/'' @ REPO_OWNER cfg @ ''/''
                                   @ REPO_NAME cfg @ ''/main/'' @ entry_path e) ?kept)"
    by (simp add: raw_url_def BRANCH_def)
  moreover have "mset ?kept = filter_mset spec_listed (mset cs)"
    by (simp add: mset_sort_js listed_iff [abs_def])
  moreover have "sorted_wrt (\<lambda>a b. lc (entry_name b) (entry_name a) \<le> 0) ?kept"
    using assms(3) by (rule sorted_by_name)
  ultimately show ?thesis by blast
qed

lemma run_listing:
  "result (getUploadedImages demo_config (fixed_octokit (Inr (Array demo_listing)) (Inr ()))
             compare_units 0) =
     Inr [''https://raw.githubusercontent.com/acme/pics/main/public/images/1700000000001-IMG.JPG'',
          ''https://raw.githubusercontent.com/acme/pics/main/public/images/1700000000000-photo_one.png'']"
  by (simp add: getUploadedImages_def getUploadedImages_try_def outcome_defs fixed_octokit_def
        demo_config_def demo_listing_def string_defs adapter_defs Let_def)

text \<open>A snapshot with a placeholder, two images (one with an upper-case extension), a
  text file and a directory whose name ends in an image extension: the two images are
  listed, the newer first.\<close>

theorem getUploadedImages_filters_sorts_maps_witness:
  "\<not> config_missing demo_config
   \<and> getContent (fixed_octokit (Inr (Array demo_listing)) (Inr ())) 0
        (REPO_OWNER demo_config) (REPO_NAME demo_config) ''public/images'' BRANCH
       = Inr (Array demo_listing)
   \<and> consistent_compare compare_units
   \<and> result (getUploadedImages demo_config (fixed_octokit (Inr (Array demo_listing)) (Inr ()))
             compare_units 0) =
       Inr [''https://raw.githubusercontent.com/acme/pics/main/public/images/1700000000001-IMG.JPG'',
            ''https://raw.githubusercontent.com/acme/pics/main/public/images/1700000000000-photo_one.png'']
   \<and> (\<exists>kept. result (getUploadedImages demo_config
                        (fixed_octokit (Inr (Array demo_listing)) (Inr ())) compare_units 0)
                  = Inr (map (\<lambda>e. ''https://raw.githubusercontent.com/'' @ REPO_OWNER demo_config
                                   @ ''/'' @ REPO_NAME demo_config @ ''/main/'' @ entry_path e) kept)
              \<and> mset kept = filter_mset spec_listed (mset demo_listing)
              \<and> sorted_wrt (\<lambda>a b. compare_units (entry_name b) (entry_name a) \<le> 0) kept)"
proof -
  have h1: "\<not> config_missing demo_config"
    by (simp add: config_missing_def demo_config_def)
  have h2: "getContent (fixed_octokit (Inr (Array demo_listing)) (Inr ())) 0
        (REPO_OWNER demo_config) (REPO_NAME demo_config) ''public/images'' BRANCH
       = Inr (Array demo_listing)"
    by (simp add: fixed_octokit_def)
  note h3 = consistent_compare_units
  from getUploadedImages_filters_sorts_maps [OF h1 h2 h3] h1 h2 h3 run_listing
  show ?thesis by blast
qed


section \<open>Store, then list\<close>

lemma digits_chars: "set (digits n) \<subseteq> set ascii_digit"
proof (induction n rule: digits.induct)
  case (1 n)
  show ?case
  proof (cases "n < 10")
    case True
    then have "ascii_digit ! n \<in> set ascii_digit"
      by (intro nth_mem) (simp add: ascii_digit_def)
    with True show ?thesis by (subst digits.simps) simp
  next
    case False
    have "ascii_digit ! (n mod 10) \<in> set ascii_digit"
      by (intro nth_mem) (simp add: ascii_digit_def)
    with False 1 show ?thesis by (subst digits.simps) simp
  qed
qed

lemma numberToString_no_slash: "CHR ''/'' \<notin> set (numberToString t)"
proof -
  have "CHR ''/'' \<notin> set ascii_digit" by (simp add: ascii_digit_def)
  with digits_chars have "\<And>n. CHR ''/'' \<notin> set (digits n)" by blast
  then show ?thesis by (simp add: numberToString_def)
qed

lemma safeFileName_no_slash: "CHR ''/'' \<notin> set (safeFileName nm)"
proof -
  have "\<not> name_class CHR ''/''"
    by (simp add: name_class_def ascii_lower_def ascii_upper_def ascii_digit_def)
  then show ?thesis by (auto simp: safeFileName_def)
qed

lemma upload_fileName_no_slash: "CHR ''/'' \<notin> set (upload_fileName t f)"
  using numberToString_no_slash [of t] safeFileName_no_slash [of "file_name f"]
  by (simp add: upload_fileName_def)

lemma upload_path_split: "upload_path t f = ''public/images'' @ ''/'' @ upload_fileName t f"
  by (simp add: upload_path_def)

lemma mem_kid: "take (length dir + 1) (dir @ ''/'' @ nm) = dir @ ''/''"
  by simp

lemma mem_lists_created_file: "lists_created_file mem_octokit"
  unfolding lists_created_file_def
proof (intro allI impI, elim conjE)
  fix s :: mem and ow rp dir nm msg content br e and r :: unit and s' :: mem
  assume w: "createOrUpdateFileContents mem_octokit s ow rp (dir @ ''/'' @ nm) msg content br = (Inr r, s')"
  let ?p = "dir @ ''/'' @ nm"
  let ?K = "\<lambda>(q, c :: string option). take (length dir + 1) q = dir @ ''/''"
  let ?mk = "\<lambda>(q, c :: string option).
                \<lparr>entry_name = drop (length dir + 1) q, entry_path = q,
                 entry_type = ''file'', entry_sha = ''sha:'' @ q\<rparr>"
  from w have s': "s' = filter (\<lambda>(q, c). q \<noteq> ?p) s @ [(?p, content)]"
    by (simp add: mem_octokit_def mem_createOrUpdateFileContents_def)
  have kids: "filter ?K s' = filter ?K (filter (\<lambda>(q, c). q \<noteq> ?p) s) @ [(?p, content)]"
    unfolding s' by simp
  then have ne: "filter ?K s' \<noteq> []" by simp
  have read: "getContent mem_octokit s' ow rp dir br = Inr (Array (map ?mk (filter ?K s')))"
    using ne by (simp add: mem_octokit_def mem_getContent_def Let_def)
  have "filter (\<lambda>x. entry_path x = ?p) (map ?mk (filter ?K s'))
          = map ?mk (filter (\<lambda>(q, c). q = ?p) (filter ?K s'))"
    by (simp add: filter_map comp_def case_prod_unfold)
  also have "filter (\<lambda>(q, c). q = ?p) (filter ?K s') = [(?p, content)]"
    unfolding kids by (auto simp: filter_empty_conv)
  finally have once: "filter (\<lambda>x. entry_path x = ?p) (map ?mk (filter ?K s'))
          = [?mk (?p, content)]"
    by simp
  have "entry_name (?mk (?p, content)) = nm" "entry_type (?mk (?p, content)) = ''file''"
    by simp_all
  with read once
  show "\<exists>cs e0. getContent mem_octokit s' ow rp dir br = Inr (Array cs)
               \<and> filter (\<lambda>x. entry_path x = dir @ ''/'' @ nm) cs = [e0]
               \<and> entry_name e0 = nm \<and> entry_type e0 = ''file''"
    by blast
qed

text \<open>
  C1: over a backing store that lists a file it has just created at a fresh path exactly
  once (\<open>lists_created_file\<close>), let the store operation succeed and return \<open>url\<close>.
  Then the directory, read in the state the write of the store operation left, has the
  stored path in exactly one entry, this entry passes the filter of the list operation
  (type, ignore list, leading dot, extension), and the list operation, called in that
  state, returns a sequence in which \<open>url\<close> occurs exactly once.
\<close>

theorem store_then_list_has_url_once:
  assumes contract: "lists_created_file oc"
    and stored: "result (uploadImage cfg oc t f onP s) = Inr url"
  shows "\<exists>cs e0 urls.
           getContent oc (repo_state (uploadImage cfg oc t f onP s))
             (REPO_OWNER cfg) (REPO_NAME cfg) ''public/images'' BRANCH = Inr (Array cs)
         \<and> filter (\<lambda>e. entry_path e = upload_path t f) cs = [e0]
         \<and> listed e0
         \<and> result (getUploadedImages cfg oc lc (repo_state (uploadImage cfg oc t f onP s)))
             = Inr urls
         \<and> count_list urls url = 1"
proof -
  from uploadImage_success [OF stored] obtain d e r s' where
    cfg: "\<not> config_missing cfg" and img: "isImageFile (file_name f)"
    and probe: "getContent oc s (REPO_OWNER cfg) (REPO_NAME cfg) (upload_path t f) BRANCH = Inl e"
    and nf: "status e = Inr (Some 404)"
    and wr: "createOrUpdateFileContents oc s (REPO_OWNER cfg) (REPO_NAME cfg) (upload_path t f)
                 (''Upload image: '' @ upload_fileName t f) (at_index (split_js d '','') 1) BRANCH
               = (Inr r, s')"
    and st: "repo_state (uploadImage cfg oc t f onP s) = s'"
    and url: "url = raw_url cfg (upload_path t f)"
    by blast
  from contract [unfolded lists_created_file_def, rule_format,
        of "upload_fileName t f" s "REPO_OWNER cfg" "REPO_NAME cfg" "''public/images''" BRANCH e
           "''Upload image: '' @ upload_fileName t f" "at_index (split_js d '','') 1" r s']
    upload_fileName_no_slash [of t f] probe nf wr
  obtain cs e0 where
    snapshot: "getContent oc s' (REPO_OWNER cfg) (REPO_NAME cfg) ''public/images'' BRANCH
                 = Inr (Array cs)"
    and once: "filter (\<lambda>e. entry_path e = upload_path t f) cs = [e0]"
    and name: "entry_name e0 = upload_fileName t f"
    and type: "entry_type e0 = ''file''"
    unfolding upload_path_split by blast
  have "isImageFile (entry_name e0)"
    unfolding name upload_fileName_def
    using isImageFile_sanitized [OF img, of "numberToString t @ ''-''"] by simp
  with name type have e0: "listed e0"
    by (simp add: listed_def fileName_not_ignored)
  let ?urls = "map (\<lambda>e. raw_url cfg (entry_path e))
                 (sort_js (\<lambda>a b. lc (entry_name b) (entry_name a)) (filter listed cs))"
  have res: "result (getUploadedImages cfg oc lc s') = Inr ?urls"
    using getUploadedImages_run [OF cfg snapshot] by (simp add: outcome_defs)
  have "count_list ?urls url
          = length (filter (\<lambda>e. entry_path e = upload_path t f) (filter listed cs))"
    unfolding url by (simp add: count_raw_url filter_sort_js_length)
  also have "\<dots> = length (filter listed (filter (\<lambda>e. entry_path e = upload_path t f) cs))"
    by (simp add: conj_commute)
  also have "\<dots> = 1"
    using once e0 by simp
  finally have "count_list ?urls url = 1" .
  with snapshot once e0 res show ?thesis
    unfolding st by blast
qed

lemma run_photo_after_bootstrap:
  "uploadImage demo_config mem_octokit 1700000000000 demo_photo True
       [(''public/images/.gitkeep'', Some gitkeep_content)] =
     \<lparr>result = Inr demo_photo_url,
      repo_state = [(''public/images/.gitkeep'', Some gitkeep_content),
                    (''public/images/1700000000000-photo_one.png'', Some ''iVBORw0KGgo='')],
      calls = [GetContent ''acme'' ''pics'' ''public/images/1700000000000-photo_one.png'' ''main'',
               CreateOrUpdateFileContents ''acme'' ''pics''
                 ''public/images/1700000000000-photo_one.png''
                 ''Upload image: 1700000000000-photo_one.png'' (Some ''iVBORw0KGgo='') ''main''],
      progress = [30, 60, 100]\<rparr>"
  by (simp add: uploadImage_def uploadImage_try_def outcome_defs mem_defs string_defs adapter_defs
        demo_photo_def demo_photo_url_def Let_def)

lemma run_snapshot_after_store:
  "getContent mem_octokit
       [(''public/images/.gitkeep'', Some gitkeep_content),
        (''public/images/1700000000000-photo_one.png'', Some ''iVBORw0KGgo='')]
       ''acme'' ''pics'' ''public/images'' ''main''
     = Inr (Array [demo_gitkeep_entry, demo_photo_entry])"
  by (simp add: mem_defs demo_gitkeep_entry_def demo_photo_entry_def)

lemma run_list_after_store:
  "result (getUploadedImages demo_config mem_octokit compare_units
       [(''public/images/.gitkeep'', Some gitkeep_content),
        (''public/images/1700000000000-photo_one.png'', Some ''iVBORw0KGgo='')])
     = Inr [demo_photo_url]"
  by (simp add: getUploadedImages_def getUploadedImages_try_def outcome_defs mem_defs
        string_defs adapter_defs demo_photo_url_def Let_def)

text \<open>The photo of the scenario, stored next to the placeholder of the bootstrap, on
  the in-memory store: the listing has the placeholder and the photo, and the list
  operation returns the URL of the photo alone.\<close>

theorem store_then_list_has_url_once_witness:
  "lists_created_file mem_octokit
   \<and> result (uploadImage demo_config mem_octokit 1700000000000 demo_photo True
             [(''public/images/.gitkeep'', Some gitkeep_content)]) = Inr demo_photo_url
   \<and> getContent mem_octokit
         (repo_state (uploadImage demo_config mem_octokit 1700000000000 demo_photo True
                        [(''public/images/.gitkeep'', Some gitkeep_content)]))
         (REPO_OWNER demo_config) (REPO_NAME demo_config) ''public/images'' BRANCH
       = Inr (Array [demo_gitkeep_entry, demo_photo_entry])
   \<and> result (getUploadedImages demo_config mem_octokit compare_units
         (repo_state (uploadImage demo_config mem_octokit 1700000000000 demo_photo True
                        [(''public/images/.gitkeep'', Some gitkeep_content)])))
       = Inr [demo_photo_url]
   \<and> count_list [demo_photo_url] demo_photo_url = 1
   \<and> (\<exists>cs e0 urls.
           getContent mem_octokit
             (repo_state (uploadImage demo_config mem_octokit 1700000000000 demo_photo True
                            [(''public/images/.gitkeep'', Some gitkeep_content)]))
             (REPO_OWNER demo_config) (REPO_NAME demo_config) ''public/images'' BRANCH
             = Inr (Array cs)
         \<and> filter (\<lambda>e. entry_path e = upload_path 1700000000000 demo_photo) cs = [e0]
         \<and> listed e0
         \<and> result (getUploadedImages demo_config mem_octokit compare_units
               (repo_state (uploadImage demo_config mem_octokit 1700000000000 demo_photo True
                              [(''public/images/.gitkeep'', Some gitkeep_content)])))
             = Inr urls
         \<and> count_list urls demo_photo_url = 1)"
proof -
  have stored: "result (uploadImage demo_config mem_octokit 1700000000000 demo_photo True
             [(''public/images/.gitkeep'', Some gitkeep_content)]) = Inr demo_photo_url"
    by (simp add: run_photo_after_bootstrap)
  have snapshot: "getContent mem_octokit
         (repo_state (uploadImage demo_config mem_octokit 1700000000000 demo_photo True
                        [(''public/images/.gitkeep'', Some gitkeep_content)]))
         (REPO_OWNER demo_config) (REPO_NAME demo_config) ''public/images'' BRANCH
       = Inr (Array [demo_gitkeep_entry, demo_photo_entry])"
    unfolding run_photo_after_bootstrap
    using run_snapshot_after_store by (simp add: demo_config_def BRANCH_def)
  have listing: "result (getUploadedImages demo_config mem_octokit compare_units
         (repo_state (uploadImage demo_config mem_octokit 1700000000000 demo_photo True
                        [(''public/images/.gitkeep'', Some gitkeep_content)])))
       = Inr [demo_photo_url]"
    unfolding run_photo_after_bootstrap
    using run_list_after_store by simp
  have once: "count_list [demo_photo_url] demo_photo_url = 1"
    by simp
  from store_then_list_has_url_once [OF mem_lists_created_file stored, of compare_units]
    mem_lists_created_file stored snapshot listing once
  show ?thesis by blast
qed


section \<open>Removal and the branch marker\<close>

lemma split_from_no_occurrence:
  assumes "\<not> (\<exists>a b. s = a @ sep @ b)"
  shows "split_from sep cur s = [cur @ s]"
  using assms
proof (induction s arbitrary: cur)
  case Nil
  then show ?case by simp
next
  case (Cons c cs)
  have no_here: "take (length sep) (c # cs) \<noteq> sep"
  proof
    assume "take (length sep) (c # cs) = sep"
    then have "c # cs = [] @ sep @ drop (length sep) (c # cs)"
      by (metis append_Nil append_take_drop_id)
    with Cons.prems show False by blast
  qed
  have "\<not> (\<exists>a b. cs = a @ sep @ b)"
  proof
    assume "\<exists>a b. cs = a @ sep @ b"
    then obtain a b where "cs = a @ sep @ b" by blast
    then have "c # cs = (c # a) @ sep @ b" by simp
    with Cons.prems show False by blast
  qed
  from Cons.IH [OF this, of "cur @ [c]"] no_here show ?case by simp
qed

lemma split_from_nonempty: "split_from sep cur s \<noteq> []"
  by (induction sep cur s rule: split_from.induct) auto

lemma split_from_occurrence:
  assumes "s = a @ sep @ b" "sep \<noteq> []"
  shows "2 \<le> length (split_from sep cur s)"
  using assms
proof (induction s arbitrary: cur a)
  case Nil
  then show ?case by simp
next
  case (Cons c cs)
  show ?case
  proof (cases "take (length sep) (c # cs) = sep")
    case True
    with Cons.prems(2) have "split_from sep cur (c # cs) =
        cur # split_from sep [] (drop (length sep) (c # cs))"
      by simp
    moreover have "1 \<le> length (split_from sep [] (drop (length sep) (c # cs)))"
      using split_from_nonempty [of sep "[]" "drop (length sep) (c # cs)"]
      by (cases "split_from sep [] (drop (length sep) (c # cs))") simp_all
    ultimately show ?thesis by simp
  next
    case False
    with Cons.prems obtain a' where "a = c # a'"
      by (cases a) auto
    with Cons.prems have "cs = a' @ sep @ b" by simp
    from Cons.IH [OF this Cons.prems(2), of "cur @ [c]"] False show ?thesis by simp
  qed
qed

lemma deleteImage_without_marker:
  assumes "\<not> has_marker url" "\<not> config_missing cfg"
  shows "deleteImage cfg oc url s = throws (ErrorObject ''Invalid image URL format'' None) s [] []"
proof -
  from assms(1) have "split_js url (BRANCH @ ''/'') = [url]"
    unfolding split_js_def has_marker_def
    using split_from_no_occurrence [of url "BRANCH @ ''/''" "[]"] by simp
  with assms(2) show ?thesis
    by (simp add: deleteImage_def deleteImage_try_def outcome_defs)
qed

lemma deleteImage_with_marker:
  assumes "has_marker url" "\<not> config_missing cfg"
  shows "\<exists>rest. calls (deleteImage cfg oc url s) =
           GetContent (REPO_OWNER cfg) (REPO_NAME cfg) (split_js url (BRANCH @ ''/'') ! 1) BRANCH # rest"
proof -
  from assms(1) have "2 \<le> length (split_js url (BRANCH @ ''/''))"
    unfolding split_js_def has_marker_def
    using split_from_occurrence [of url _ "BRANCH @ ''/''" _ "[]"] by (auto simp: BRANCH_def)
  with assms(2) show ?thesis
    by (auto simp add: deleteImage_def deleteImage_try_def outcome_defs Let_def
        split: sum.splits contents.splits option.splits prod.splits)
qed


lemma run_cat:
  "uploadImage romain_config mem_octokit 1700000000000 demo_cat True [] =
     \<lparr>result = Inr demo_cat_url,
      repo_state = [(''public/images/1700000000000-cat.png'', Some ''iVBORw0KGgo='')],
      calls = [GetContent ''romain'' ''pics'' ''public/images/1700000000000-cat.png'' ''main'',
               CreateOrUpdateFileContents ''romain'' ''pics''
                 ''public/images/1700000000000-cat.png''
                 ''Upload image: 1700000000000-cat.png'' (Some ''iVBORw0KGgo='') ''main''],
      progress = [30, 60, 100]\<rparr>"
  by (simp add: uploadImage_def uploadImage_try_def outcome_defs mem_defs string_defs adapter_defs
        demo_cat_def demo_cat_url_def romain_config_def Let_def)

lemma split_cat_url:
  "split_js demo_cat_url (BRANCH @ ''/'')
    = [''https://raw.githubusercontent.com/ro'', ''pics/'', ''public/images/1700000000000-cat.png'']"
  by (simp add: split_js_def BRANCH_def demo_cat_url_def)

lemma run_delete_cat:
  "deleteImage romain_config mem_octokit demo_cat_url
      [(''public/images/1700000000000-cat.png'', Some ''iVBORw0KGgo='')] =
     \<lparr>result = Inl (ErrorObject ''Not Found'' (Some 404)),
      repo_state = [(''public/images/1700000000000-cat.png'', Some ''iVBORw0KGgo='')],
      calls = [GetContent ''romain'' ''pics'' ''pics/'' ''main''],
      progress = []\<rparr>"
  by (simp add: deleteImage_def deleteImage_try_def outcome_defs mem_defs romain_config_def
        config_missing_def split_cat_url Let_def) (simp add: BRANCH_def)

lemma split_photo_url:
  "split_js demo_photo_url (BRANCH @ ''/'')
    = [''https://raw.githubusercontent.com/acme/pics/'', ''public/images/1700000000000-photo_one.png'']"
  by (simp add: split_js_def BRANCH_def demo_photo_url_def)

lemma run_delete_photo:
  "deleteImage demo_config mem_octokit demo_photo_url
      [(''public/images/1700000000000-photo_one.png'', Some ''iVBORw0KGgo='')] =
     \<lparr>result = Inr (),
      repo_state = [],
      calls = [GetContent ''acme'' ''pics'' ''public/images/1700000000000-photo_one.png'' ''main'',
               DeleteFile ''acme'' ''pics'' ''public/images/1700000000000-photo_one.png''
                 ''Delete image: 1700000000000-photo_one.png''
                 ''sha:public/images/1700000000000-photo_one.png'' ''main''],
      progress = []\<rparr>"
  by (simp add: deleteImage_def deleteImage_try_def outcome_defs mem_defs
        config_missing_def split_photo_url Let_def) (simp add: BRANCH_def split_js_def)

text \<open>
  C8, at a URL the store operation itself returned: with the owner \<^verbatim>\<open>romain\<close> the URL of
  a stored image holds the marker \<^verbatim>\<open>main/\<close> twice, and the remove operation takes the piece
  between the two occurrences as the storage path. It asks the backing store for
  \<^verbatim>\<open>pics/\<close>, neither the remainder after the first marker nor the path of the image, and
  the image stays stored.
\<close>

theorem deleteImage_takes_piece_between_markers:
  "result (uploadImage romain_config mem_octokit 1700000000000 demo_cat True []) = Inr demo_cat_url
   \<and> repo_state (uploadImage romain_config mem_octokit 1700000000000 demo_cat True [])
       = [(''public/images/1700000000000-cat.png'', Some ''iVBORw0KGgo='')]
   \<and> demo_cat_url = ''https://raw.githubusercontent.com/ro'' @ BRANCH @ ''/''
                        @ ''pics/main/public/images/1700000000000-cat.png''
   \<and> calls (deleteImage romain_config mem_octokit demo_cat_url
               [(''public/images/1700000000000-cat.png'', Some ''iVBORw0KGgo='')])
       = [GetContent ''romain'' ''pics'' ''pics/'' ''main'']
   \<and> result (deleteImage romain_config mem_octokit demo_cat_url
               [(''public/images/1700000000000-cat.png'', Some ''iVBORw0KGgo='')])
       = Inl (ErrorObject ''Not Found'' (Some 404))
   \<and> repo_state (deleteImage romain_config mem_octokit demo_cat_url
               [(''public/images/1700000000000-cat.png'', Some ''iVBORw0KGgo='')])
       = [(''public/images/1700000000000-cat.png'', Some ''iVBORw0KGgo='')]"
  by (simp add: run_cat run_delete_cat) (simp add: demo_cat_url_def BRANCH_def)


section \<open>The bootstrap of the directory\<close>

text \<open>
  C9: with the configuration present, the bootstrap reads the directory. When the read
  succeeds, the read is its only request and the backing store is unchanged (so a call
  after the directory exists is a no-op). When the read fails with status 404, it sends
  one write of the placeholder \<^verbatim>\<open>public/images/.gitkeep\<close> through the client's
  create-or-update function, the one the store operation uses, and succeeds exactly when
  that write does. When the read fails in any other way, the call fails, with the read as
  its only request and the backing store unchanged.
\<close>

theorem ensureImagesDirectory_bootstrap:
  assumes "\<not> config_missing cfg"
  shows
   "((\<exists>c. getContent oc s (REPO_OWNER cfg) (REPO_NAME cfg) ''public/images'' BRANCH = Inr c) \<longrightarrow>
       ensureImagesDirectory cfg oc s =
         returns () s [GetContent (REPO_OWNER cfg) (REPO_NAME cfg) ''public/images'' BRANCH] [])
    \<and> ((\<exists>e. getContent oc s (REPO_OWNER cfg) (REPO_NAME cfg) ''public/images'' BRANCH = Inl e
            \<and> status e = Inr (Some 404)) \<longrightarrow>
         calls (ensureImagesDirectory cfg oc s) =
           [GetContent (REPO_OWNER cfg) (REPO_NAME cfg) ''public/images'' BRANCH,
            CreateOrUpdateFileContents (REPO_OWNER cfg) (REPO_NAME cfg)
              ''public/images/.gitkeep'' ''Create images directory'' (Some gitkeep_content) BRANCH]
         \<and> repo_state (ensureImagesDirectory cfg oc s) =
             snd (createOrUpdateFileContents oc s (REPO_OWNER cfg) (REPO_NAME cfg)
                    ''public/images/.gitkeep'' ''Create images directory''
                    (Some gitkeep_content) BRANCH)
         \<and> (result (ensureImagesDirectory cfg oc s) = Inr () \<longleftrightarrow>
              (\<exists>r. fst (createOrUpdateFileContents oc s (REPO_OWNER cfg) (REPO_NAME cfg)
                    ''public/images/.gitkeep'' ''Create images directory''
                    (Some gitkeep_content) BRANCH) = Inr r)))
    \<and> ((\<exists>e. getContent oc s (REPO_OWNER cfg) (REPO_NAME cfg) ''public/images'' BRANCH = Inl e
            \<and> status e \<noteq> Inr (Some 404)) \<longrightarrow>
         ensureImagesDirectory cfg oc s =
           throws (ErrorObject ''Failed to ensure images directory exists'' None) s
             [GetContent (REPO_OWNER cfg) (REPO_NAME cfg) ''public/images'' BRANCH] [])"
proof (cases "getContent oc s (REPO_OWNER cfg) (REPO_NAME cfg) ''public/images'' BRANCH")
  case (Inr c)
  with assms show ?thesis
    by (simp add: ensureImagesDirectory_def ensureImagesDirectory_try_def outcome_defs Let_def)
next
  case (Inl e)
  with assms show ?thesis
    by (cases e)
       (auto simp add: ensureImagesDirectory_def ensureImagesDirectory_try_def outcome_defs Let_def
          split: prod.splits sum.splits)
qed

lemma run_bootstrap:
  "ensureImagesDirectory demo_config mem_octokit [] =
     returns () [(''public/images/.gitkeep'', Some gitkeep_content)]
       [GetContent ''acme'' ''pics'' ''public/images'' ''main'',
        CreateOrUpdateFileContents ''acme'' ''pics'' ''public/images/.gitkeep''
          ''Create images directory'' (Some gitkeep_content) ''main''] []"
  by (simp add: ensureImagesDirectory_def ensureImagesDirectory_try_def outcome_defs mem_defs
        config_missing_def BRANCH_def Let_def)

lemma run_bootstrap_again:
  "ensureImagesDirectory demo_config mem_octokit
       [(''public/images/.gitkeep'', Some gitkeep_content)] =
     returns () [(''public/images/.gitkeep'', Some gitkeep_content)]
       [GetContent ''acme'' ''pics'' ''public/images'' ''main''] []"
  by (simp add: ensureImagesDirectory_def ensureImagesDirectory_try_def outcome_defs mem_defs
        config_missing_def BRANCH_def Let_def)

lemma run_bootstrap_500:
  "ensureImagesDirectory demo_config
       (fixed_octokit (Inl (ErrorObject ''Server Error'' (Some 500))) (Inr ())) 0 =
     throws (ErrorObject ''Failed to ensure images directory exists'' None) 0
       [GetContent ''acme'' ''pics'' ''public/images'' ''main''] []"
  by (simp add: ensureImagesDirectory_def ensureImagesDirectory_try_def outcome_defs
        fixed_octokit_def demo_config_def config_missing_def BRANCH_def Let_def)

text \<open>On an empty store the bootstrap writes the placeholder; called again on the store
  it left, it only reads; on a server error it fails after the read.\<close>

theorem ensureImagesDirectory_bootstrap_witness:
  "\<not> config_missing demo_config
   \<and> ensureImagesDirectory demo_config mem_octokit [] =
       returns () [(''public/images/.gitkeep'', Some gitkeep_content)]
         [GetContent ''acme'' ''pics'' ''public/images'' ''main'',
          CreateOrUpdateFileContents ''acme'' ''pics'' ''public/images/.gitkeep''
            ''Create images directory'' (Some gitkeep_content) ''main''] []
   \<and> ensureImagesDirectory demo_config mem_octokit
         (repo_state (ensureImagesDirectory demo_config mem_octokit [])) =
       returns () (repo_state (ensureImagesDirectory demo_config mem_octokit []))
         [GetContent (REPO_OWNER demo_config) (REPO_NAME demo_config) ''public/images'' BRANCH] []
   \<and> ensureImagesDirectory demo_config
         (fixed_octokit (Inl (ErrorObject ''Server Error'' (Some 500))) (Inr ())) 0 =
       throws (ErrorObject ''Failed to ensure images directory exists'' None) 0
         [GetContent ''acme'' ''pics'' ''public/images'' ''main''] []"
proof -
  have cfg: "\<not> config_missing demo_config"
    by (simp add: config_missing_def demo_config_def)
  have exists: "\<exists>c. getContent mem_octokit (repo_state (ensureImagesDirectory demo_config mem_octokit []))
                  (REPO_OWNER demo_config) (REPO_NAME demo_config) ''public/images'' BRANCH = Inr c"
    unfolding run_bootstrap by (simp add: returns_def mem_defs BRANCH_def)
  from ensureImagesDirectory_bootstrap
         [OF cfg, of mem_octokit "repo_state (ensureImagesDirectory demo_config mem_octokit [])"]
       exists
  have again: "ensureImagesDirectory demo_config mem_octokit
         (repo_state (ensureImagesDirectory demo_config mem_octokit [])) =
       returns () (repo_state (ensureImagesDirectory demo_config mem_octokit []))
         [GetContent (REPO_OWNER demo_config) (REPO_NAME demo_config) ''public/images'' BRANCH] []"
    by blast
  from cfg again run_bootstrap run_bootstrap_500 show ?thesis by blast
qed

end
